theory Spec2Isabelle
  imports Main
begin

section \<open>Python values\<close>

text \<open>
  The values that travel through a workflow (keyword arguments, session state, extra data,
  response content, the serialised record) are JSON-like Python values. A \<open>dict\<close> is an
  association list in insertion order, as Python keeps it; Python never holds a key twice,
  which \<open>py_ok\<close> states for every mapping inside a value.
\<close>

datatype pyval =
    VNone
  | VBool bool
  | VInt int
  | VStr string
  | VList "pyval list"
  | VDict "(string \<times> pyval) list"

type_synonym dict = "(string \<times> pyval) list"

fun py_ok :: "pyval \<Rightarrow> bool" where
  "py_ok (VList xs) = (\<forall>x \<in> set xs. py_ok x)"
| "py_ok (VDict d) = (distinct (map fst d) \<and> (\<forall>kv \<in> set d. py_ok (snd kv)))"
| "py_ok _ = True"

text \<open>\<open>key in d\<close>, \<open>d.get(key)\<close> (\<open>None\<close> when the key is missing) and \<open>d[key] = v\<close>
  (an existing key keeps its position, a new key goes last).\<close>

definition dict_has :: "dict \<Rightarrow> string \<Rightarrow> bool" where
  "dict_has d k = (map_of d k \<noteq> None)"

definition dict_get :: "dict \<Rightarrow> string \<Rightarrow> pyval" where
  "dict_get d k = (case map_of d k of None \<Rightarrow> VNone | Some v \<Rightarrow> v)"

fun dict_set :: "dict \<Rightarrow> string \<Rightarrow> pyval \<Rightarrow> dict" where
  "dict_set [] k v = [(k, v)]"
| "dict_set ((k', v') # d) k v = (if k' = k then (k, v) # d else (k', v') # dict_set d k v)"

text \<open>
  Modelled from the spec: \<open>agno.utils.merge_dict.merge_dictionaries(a, b)\<close> is imported by
  the workflow module and its body is not part of the sources at hand. The spec describes it
  as a deep merge into the first mapping in which the second mapping's values win on key
  conflicts, recursively for nested mappings. The model walks the keys of \<open>b\<close> in order:
  where both sides hold a mapping under the key the two are merged recursively, otherwise
  the value of \<open>b\<close> is stored under the key. The first argument is updated in place in
  Python; here the updated mapping is the result.
\<close>

function merge_dictionaries :: "dict \<Rightarrow> dict \<Rightarrow> dict" where
  "merge_dictionaries a [] = a"
| "merge_dictionaries a ((key, bv) # b) =
     merge_dictionaries
       (dict_set a key
          (case map_of a key of
             Some (VDict ad) \<Rightarrow>
               (case bv of VDict bd \<Rightarrow> VDict (merge_dictionaries ad bd) | _ \<Rightarrow> bv)
           | _ \<Rightarrow> bv))
       b"
  by pat_completeness auto
termination
  by (relation "measure (\<lambda>(a, b). size (VDict b))") auto

text \<open>The value stored under one key of \<open>b\<close>: the recursive merge when both sides are
  mappings, the value of \<open>b\<close> otherwise.\<close>

definition merged_value :: "pyval option \<Rightarrow> pyval \<Rightarrow> pyval" where
  "merged_value av bv =
     (case av of
        Some (VDict ad) \<Rightarrow> (case bv of VDict bd \<Rightarrow> VDict (merge_dictionaries ad bd) | _ \<Rightarrow> bv)
      | _ \<Rightarrow> bv)"


section \<open>Collaborators of the workflow\<close>

text \<open>
  \<open>RunResponse\<close>, \<open>WorkflowRun\<close>, \<open>WorkflowMemory\<close>, \<open>WorkflowSession\<close>, \<open>Agent\<close>, the
  artifacts and \<open>Storage\<close> are imported by the module. Only the attributes the workflow
  reads or writes are kept.
\<close>

record run_response =
  rr_run_id :: "string option"
  rr_session_id :: "string option"
  rr_workflow_id :: "string option"
  rr_content :: pyval

record workflow_run =
  run_input_of :: "dict option"
  run_response_of :: "run_response option"

text \<open>Modelled from the spec: the memory object is an ordered, append-only run log;
  \<open>add_run\<close> appends one entry to \<open>runs\<close>.\<close>

record workflow_memory =
  runs :: "workflow_run list"

definition add_run :: "workflow_memory \<Rightarrow> workflow_run \<Rightarrow> workflow_memory" where
  "add_run m r = m\<lparr>runs := runs m @ [r]\<rparr>"

record workflow_session =
  ws_session_id :: "string option"
  ws_workflow_id :: "string option"
  ws_user_id :: "string option"
  ws_memory :: "dict option"
  ws_workflow_data :: "dict option"
  ws_session_data :: "dict option"
  ws_extra_data :: "dict option"

record agent =
  agent_session_id :: "string option"

text \<open>An artifact (image, video, audio) is an opaque record of its fields.\<close>

datatype artifact = Artifact dict

fun model_dump :: "artifact \<Rightarrow> pyval" where
  "model_dump (Artifact d) = VDict d"

text \<open>An object held by a class attribute or used as a field's declared type: an
  \<open>Agent\<close> instance, a plain value, or a type (a class object or an annotation string).\<close>

datatype pyobj = AgentObj agent | ValObj pyval | TypeObj string

text \<open>Exceptions. \<open>UserException\<close> is whatever the subclass routine raises,
  \<open>SessionCreateFailed\<close> is \<open>Exception("Failed to create new WorkflowSession in storage")\<close>,
  the others are raised by Python or by the artifact models.\<close>

datatype exn =
    UserException string
  | SessionCreateFailed
  | ValidationError
  | AttributeError
  | TypeError

datatype 'a result = Return 'a | Raise exn

text \<open>What \<open>logger.error\<close> and \<open>logger.warning\<close> are called with; debug lines are not
  recorded.\<close>

datatype log_entry =
    ErrorNotImplemented string
  | ErrorRunFailed exn
  | WarnStorageMode string
  | WarnYieldType pyval
  | WarnReturnType pyval
  | WarnLoadRuns

text \<open>Calls that reach the storage backend.\<close>

datatype io_event = IORead string | IOUpsert workflow_session

fun is_upsert :: "io_event \<Rightarrow> bool" where
  "is_upsert (IOUpsert _) = True"
| "is_upsert (IORead _) = False"

record 's storage =
  mode :: string
  backend :: 's

text \<open>
  The environment: the behaviour of everything the module imports and does not define.
  \<open>Storage\<close> is an abstract interface, so \<open>read\<close> and \<open>upsert\<close> are arbitrary functions on
  a backend state \<open>'s\<close>; \<open>uuid4\<close> is the sequence of tokens the generator hands out, the
  \<open>n\<close>-th call returning \<open>uuid4 n\<close>; the remaining fields are the (de)serialisers of the
  collaborators, \<open>None\<close> standing for a raised exception.
\<close>

record 's env =
  uuid4 :: "nat \<Rightarrow> string"
  agno_debug :: bool
  storage_read :: "'s \<Rightarrow> string \<Rightarrow> workflow_session option \<times> 's"
  storage_upsert :: "'s \<Rightarrow> workflow_session \<Rightarrow> workflow_session option \<times> 's"
  memory_to_dict :: "workflow_memory \<Rightarrow> dict"
  workflow_run_of :: "dict \<Rightarrow> workflow_run option"
  nested_model_dump :: "dict \<Rightarrow> pyval"
  image_validate :: "pyval \<Rightarrow> artifact option"
  video_validate :: "pyval \<Rightarrow> artifact option"
  audio_validate :: "pyval \<Rightarrow> artifact option"


section \<open>The workflow instance\<close>

text \<open>
  The fields of \<open>Workflow\<close>, followed by \<open>attrs\<close> (the attributes the subclass defines at
  class level, which \<open>getattr\<close> resolves and \<open>__post_init__\<close> scans; agents are mutable
  objects, so they are part of the state) and three observers that are not Python
  attributes: the log, the storage calls made so far and the number of \<open>uuid4\<close> calls made
  so far. \<open>name\<close> and \<open>session_name\<close> are values, since the load assigns them whatever the
  persisted record holds. \<open>monitoring\<close> and \<open>telemetry\<close> are left out: no operation modelled
  here reads them.
\<close>

record 's workflow =
  name :: pyval
  workflow_id :: "string option"
  description :: "string option"
  user_id :: "string option"
  session_id :: "string option"
  session_name :: pyval
  session_state :: dict
  memory :: "workflow_memory option"
  storage :: "'s storage option"
  extra_data :: "dict option"
  debug_mode :: bool
  run_id :: "string option"
  run_input :: "dict option"
  run_response :: "run_response option"
  images :: "artifact list option"
  videos :: "artifact list option"
  audio :: "artifact list option"
  workflow_session :: "workflow_session option"
  attrs :: "(string \<times> pyobj) list"
  logs :: "log_entry list"
  io :: "io_event list"
  uuid_calls :: nat

text \<open>What the subclass routine hands back: it raises, or returns an iterator, a single
  \<open>RunResponse\<close>, or anything else. An iterator yields finitely many items and then
  either ends or raises.\<close>

datatype item = ItemResponse run_response | ItemOther pyval

datatype routine_value =
    ResIterator "item list" "exn option"
  | ResResponse run_response
  | ResOther pyval

datatype routine_result = Raises exn | Returns routine_value

text \<open>
  The subclass: its name, its \<open>description\<close> class attribute, its \<open>run\<close> method (\<open>None\<close>
  when the subclass does not override \<open>Workflow.run\<close>), the attributes of its class
  \<open>__dict__\<close> and its dataclass fields (name and declared type). The routine reads the
  keyword arguments and the instance; what it does to the instance by itself is outside the
  model.
\<close>

record 's wf_class =
  class_name :: string
  class_description :: "string option"
  routine :: "(dict \<Rightarrow> 's workflow \<Rightarrow> routine_result) option"
  class_dict :: "(string \<times> pyobj) list"
  dc_fields :: "(string \<times> pyobj) list"


section \<open>Construction\<close>

record 's init_args =
  arg_name :: "string option"
  arg_workflow_id :: "string option"
  arg_description :: "string option"
  arg_user_id :: "string option"
  arg_session_id :: "string option"
  arg_session_name :: "string option"
  arg_session_state :: "dict option"
  arg_memory :: "workflow_memory option"
  arg_storage :: "'s storage option"
  arg_extra_data :: "dict option"
  arg_debug_mode :: bool

text \<open>\<open>x or y\<close> on an optional string and on an optional mapping: the empty string and
  the empty mapping are falsy.\<close>

definition str_or :: "string option \<Rightarrow> string option \<Rightarrow> string option" where
  "str_or x y = (case x of None \<Rightarrow> y | Some s \<Rightarrow> if s = [] then y else Some s)"

definition dict_or_empty :: "dict option \<Rightarrow> dict" where
  "dict_or_empty x = (case x of None \<Rightarrow> [] | Some d \<Rightarrow> d)"

definition opt_str :: "string option \<Rightarrow> pyval" where
  "opt_str x = (case x of None \<Rightarrow> VNone | Some s \<Rightarrow> VStr s)"

text \<open>\<open>__post_init__\<close>: every \<open>Agent\<close> in the class \<open>__dict__\<close> gets the session id of the
  instance.\<close>

fun post_init_attr :: "string option \<Rightarrow> string \<times> pyobj \<Rightarrow> string \<times> pyobj" where
  "post_init_attr sid (field_name, AgentObj a) = (field_name, AgentObj (a\<lparr>agent_session_id := sid\<rparr>))"
| "post_init_attr sid (field_name, v) = (field_name, v)"

definition post_init :: "'s workflow \<Rightarrow> 's workflow" where
  "post_init w = w\<lparr>attrs := map (post_init_attr (session_id w)) (attrs w)\<rparr>"

text \<open>\<open>__init__\<close>. \<open>update_run_method\<close> binds the instance's \<open>run\<close> to \<open>run_workflow\<close> when
  the class overrides \<open>run\<close>; that choice depends on the class alone and is made in
  \<open>run\<close> below.\<close>

definition Workflow_init :: "'s wf_class \<Rightarrow> 's init_args \<Rightarrow> 's workflow" where
  "Workflow_init C a =
     post_init
       \<lparr> name = opt_str (str_or (arg_name a) (Some (class_name C))),
         workflow_id = arg_workflow_id a,
         description = str_or (arg_description a) (class_description C),
         user_id = arg_user_id a,
         session_id = arg_session_id a,
         session_name = opt_str (arg_session_name a),
         session_state = dict_or_empty (arg_session_state a),
         memory = arg_memory a,
         storage = arg_storage a,
         extra_data = arg_extra_data a,
         debug_mode = arg_debug_mode a,
         run_id = None,
         run_input = None,
         run_response = None,
         images = None,
         videos = None,
         audio = None,
         workflow_session = None,
         attrs = class_dict C,
         logs = [],
         io = [],
         uuid_calls = 0 \<rparr>"


section \<open>Identity and mode setup\<close>

definition log_add :: "log_entry \<Rightarrow> 's workflow \<Rightarrow> 's workflow" where
  "log_add e w = w\<lparr>logs := logs w @ [e]\<rparr>"

definition set_storage_mode :: "'s workflow \<Rightarrow> 's workflow" where
  "set_storage_mode w =
     (case storage w of
        None \<Rightarrow> w
      | Some st \<Rightarrow>
          (let w1 = (if mode st \<in> set [''agent'', ''team'']
                     then log_add (WarnStorageMode (mode st)) w else w)
           in w1\<lparr>storage := Some (st\<lparr>mode := ''workflow''\<rparr>)\<rparr>))"

definition set_debug :: "'s env \<Rightarrow> 's workflow \<Rightarrow> 's workflow" where
  "set_debug E w = (if debug_mode w \<or> agno_debug E then w\<lparr>debug_mode := True\<rparr> else w)"

text \<open>\<open>str(uuid4())\<close>: the next token of the environment's sequence.\<close>

definition new_uuid :: "'s env \<Rightarrow> 's workflow \<Rightarrow> string \<times> 's workflow" where
  "new_uuid E w = (uuid4 E (uuid_calls w), w\<lparr>uuid_calls := Suc (uuid_calls w)\<rparr>)"

definition set_workflow_id :: "'s env \<Rightarrow> 's workflow \<Rightarrow> 's workflow" where
  "set_workflow_id E w =
     (if workflow_id w = None
      then (let (u, w1) = new_uuid E w in w1\<lparr>workflow_id := Some u\<rparr>)
      else w)"

definition set_session_id :: "'s env \<Rightarrow> 's workflow \<Rightarrow> 's workflow" where
  "set_session_id E w =
     (if session_id w = None
      then (let (u, w1) = new_uuid E w in w1\<lparr>session_id := Some u\<rparr>)
      else w)"

definition initialize_memory :: "'s workflow \<Rightarrow> 's workflow" where
  "initialize_memory w =
     (if memory w = None then w\<lparr>memory := Some \<lparr>runs = []\<rparr>\<rparr> else w)"


section \<open>Serialising the session\<close>

definition put_if :: "bool \<Rightarrow> string \<Rightarrow> pyval \<Rightarrow> dict \<Rightarrow> dict" where
  "put_if c k v d = (if c then dict_set d k v else d)"

definition get_workflow_data :: "'s workflow \<Rightarrow> dict" where
  "get_workflow_data w =
     put_if (description w \<noteq> None) ''description'' (opt_str (description w))
       (put_if (workflow_id w \<noteq> None) ''workflow_id'' (opt_str (workflow_id w))
          (put_if (name w \<noteq> VNone) ''name'' (name w) []))"

definition dump_all :: "artifact list option \<Rightarrow> pyval" where
  "dump_all xs = (case xs of None \<Rightarrow> VNone | Some l \<Rightarrow> VList (map model_dump l))"

definition get_session_data :: "'s env \<Rightarrow> 's workflow \<Rightarrow> dict" where
  "get_session_data E w =
     put_if (audio w \<noteq> None) ''audio'' (dump_all (audio w))
       (put_if (videos w \<noteq> None) ''videos'' (dump_all (videos w))
          (put_if (images w \<noteq> None) ''images'' (dump_all (images w))
             (put_if (session_state w \<noteq> []) ''session_state''
                (nested_model_dump E (session_state w))
                (put_if (session_name w \<noteq> VNone) ''session_name'' (session_name w) []))))"

definition get_workflow_session :: "'s env \<Rightarrow> 's workflow \<Rightarrow> workflow_session" where
  "get_workflow_session E w =
     \<lparr> ws_session_id = session_id w,
       ws_workflow_id = workflow_id w,
       ws_user_id = user_id w,
       ws_memory = map_option (memory_to_dict E) (memory w),
       ws_workflow_data = Some (get_workflow_data w),
       ws_session_data = Some (get_session_data E w),
       ws_extra_data = extra_data w \<rparr>"


section \<open>Session merge\<close>

text \<open>
  \<open>load_workflow_session\<close> is split along its blocks. The persisted record is a Python
  object that the load updates in place (both merges write into the record's own
  mappings), so the blocks that do so return the record's new content as well.
\<close>

definition load_ids :: "'s workflow \<Rightarrow> workflow_session \<Rightarrow> 's workflow" where
  "load_ids w session =
     (let w1 = (if workflow_id w = None \<and> ws_workflow_id session \<noteq> None
                then w\<lparr>workflow_id := ws_workflow_id session\<rparr> else w);
          w2 = (if user_id w1 = None \<and> ws_user_id session \<noteq> None
                then w1\<lparr>user_id := ws_user_id session\<rparr> else w1)
      in (if session_id w2 = None \<and> ws_session_id session \<noteq> None
          then w2\<lparr>session_id := ws_session_id session\<rparr> else w2))"

definition load_name :: "'s workflow \<Rightarrow> workflow_session \<Rightarrow> 's workflow" where
  "load_name w session =
     (case ws_workflow_data session of
        None \<Rightarrow> w
      | Some wd \<Rightarrow>
          if name w = VNone \<and> dict_has wd ''name''
          then w\<lparr>name := dict_get wd ''name''\<rparr> else w)"

definition load_session_name :: "'s workflow \<Rightarrow> dict \<Rightarrow> 's workflow" where
  "load_session_name w sd =
     (if session_name w = VNone \<and> dict_has sd ''session_name''
      then w\<lparr>session_name := dict_get sd ''session_name''\<rparr> else w)"

text \<open>The session state block: the persisted mapping counts when it is a non-empty
  \<open>dict\<close>; a non-empty live state is merged into it (the persisted mapping is the merge
  target), and the result becomes the live state.\<close>

definition load_session_state :: "'s workflow \<Rightarrow> dict \<Rightarrow> 's workflow \<times> dict" where
  "load_session_state w sd =
     (if dict_has sd ''session_state'' then
        (case dict_get sd ''session_state'' of
           VDict session_state_from_db \<Rightarrow>
             if session_state_from_db \<noteq> [] then
               (if session_state w \<noteq> [] then
                  (let merged = merge_dictionaries session_state_from_db (session_state w)
                   in (w\<lparr>session_state := merged\<rparr>, dict_set sd ''session_state'' (VDict merged)))
                else (w\<lparr>session_state := session_state_from_db\<rparr>, sd))
             else (w, sd)
         | _ \<Rightarrow> (w, sd))
      else (w, sd))"

text \<open>The list comprehension \<open>[M.model_validate(x) for x in xs]\<close>: \<open>None\<close> when one of
  the validations raises.\<close>

fun validate_all :: "(pyval \<Rightarrow> artifact option) \<Rightarrow> pyval list \<Rightarrow> artifact list option" where
  "validate_all f [] = Some []"
| "validate_all f (x # xs) =
     (case f x of
        None \<Rightarrow> None
      | Some a \<Rightarrow> (case validate_all f xs of None \<Rightarrow> None | Some as \<Rightarrow> Some (a # as)))"

text \<open>One artifact block: the field's new value and whether the block raised. The field
  is set to the empty list before the entries are validated.\<close>

definition load_artifacts ::
  "(pyval \<Rightarrow> artifact option) \<Rightarrow> dict \<Rightarrow> string \<Rightarrow> artifact list option
     \<Rightarrow> artifact list option \<times> unit result" where
  "load_artifacts validate sd key cur =
     (if dict_has sd key then
        (case dict_get sd key of
           VList from_db \<Rightarrow>
             (let cur1 = (case cur of None \<Rightarrow> [] | Some l \<Rightarrow> l)
              in (case validate_all validate from_db of
                    None \<Rightarrow> (Some cur1, Raise ValidationError)
                  | Some arts \<Rightarrow> (Some (cur1 @ arts), Return ())))
         | _ \<Rightarrow> (cur, Return ()))
      else (cur, Return ()))"

definition load_media :: "'s env \<Rightarrow> 's workflow \<Rightarrow> dict \<Rightarrow> 's workflow \<times> unit result" where
  "load_media E w sd =
     (let (imgs, r1) = load_artifacts (image_validate E) sd ''images'' (images w);
          w1 = w\<lparr>images := imgs\<rparr>
      in case r1 of
           Raise e \<Rightarrow> (w1, Raise e)
         | Return _ \<Rightarrow>
             (let (vids, r2) = load_artifacts (video_validate E) sd ''videos'' (videos w1);
                  w2 = w1\<lparr>videos := vids\<rparr>
              in case r2 of
                   Raise e \<Rightarrow> (w2, Raise e)
                 | Return _ \<Rightarrow>
                     (let (auds, r3) = load_artifacts (audio_validate E) sd ''audio'' (audio w2)
                      in (w2\<lparr>audio := auds\<rparr>, r3))))"

definition load_extra_data ::
  "'s workflow \<Rightarrow> workflow_session \<Rightarrow> 's workflow \<times> workflow_session" where
  "load_extra_data w session =
     (case ws_extra_data session of
        None \<Rightarrow> (w, session)
      | Some from_db \<Rightarrow>
          (let merged = (case extra_data w of
                           None \<Rightarrow> from_db
                         | Some live \<Rightarrow> merge_dictionaries from_db live)
           in (w\<lparr>extra_data := Some merged\<rparr>, session\<lparr>ws_extra_data := Some merged\<rparr>)))"

text \<open>Iterating a value (\<open>for m in v\<close>): a list gives its elements, a mapping its keys, a
  string its characters; anything else is not iterable.\<close>

fun py_iter :: "pyval \<Rightarrow> pyval list option" where
  "py_iter (VList xs) = Some xs"
| "py_iter (VDict d) = Some (map (\<lambda>kv. VStr (fst kv)) d)"
| "py_iter (VStr s) = Some (map (\<lambda>c. VStr [c]) s)"
| "py_iter _ = None"

text \<open>\<open>[WorkflowRun(**m) for m in v]\<close>: \<open>None\<close> when \<open>v\<close> is not iterable, an element
  is not a mapping or \<open>WorkflowRun\<close> rejects it.\<close>

fun build_runs :: "'s env \<Rightarrow> pyval list \<Rightarrow> workflow_run list option" where
  "build_runs E [] = Some []"
| "build_runs E (VDict m # ms) =
     (case workflow_run_of E m of
        None \<Rightarrow> None
      | Some r \<Rightarrow> (case build_runs E ms of None \<Rightarrow> None | Some rs \<Rightarrow> Some (r # rs)))"
| "build_runs E (_ # ms) = None"

definition load_memory :: "'s env \<Rightarrow> 's workflow \<Rightarrow> workflow_session \<Rightarrow> 's workflow" where
  "load_memory E w session =
     (case ws_memory session of
        None \<Rightarrow> w
      | Some mem \<Rightarrow>
          (let w1 = (if memory w = None then w\<lparr>memory := Some \<lparr>runs = []\<rparr>\<rparr> else w)
           in if dict_has mem ''runs'' then
                (case Option.bind (py_iter (dict_get mem ''runs'')) (build_runs E) of
                   None \<Rightarrow> log_add WarnLoadRuns w1
                 | Some rs \<Rightarrow> w1\<lparr>memory := map_option (\<lambda>m. m\<lparr>runs := rs\<rparr>) (memory w1)\<rparr>)
              else w1))"

definition load_workflow_session ::
  "'s env \<Rightarrow> 's workflow \<Rightarrow> workflow_session
     \<Rightarrow> 's workflow \<times> workflow_session \<times> unit result" where
  "load_workflow_session E w session =
     (let w1 = load_name (load_ids w session) session
      in case ws_session_data session of
           None \<Rightarrow>
             (let (w2, session1) = load_extra_data w1 session
              in (load_memory E w2 session1, session1, Return ()))
         | Some sd \<Rightarrow>
             (let (w2, sd1) = load_session_state (load_session_name w1 sd) sd;
                  session1 = session\<lparr>ws_session_data := Some sd1\<rparr>;
                  (w3, r) = load_media E w2 sd1
              in case r of
                   Raise e \<Rightarrow> (w3, session1, Raise e)
                 | Return _ \<Rightarrow>
                     (let (w4, session2) = load_extra_data w3 session1
                      in (load_memory E w4 session2, session2, Return ()))))"


section \<open>Session lifecycle\<close>

definition read_from_storage ::
  "'s env \<Rightarrow> 's workflow \<Rightarrow> 's workflow \<times> workflow_session option result" where
  "read_from_storage E w =
     (case (storage w, session_id w) of
        (Some st, Some sid) \<Rightarrow>
          (let (found, b) = storage_read E (backend st) sid;
               w1 = w\<lparr>storage := Some (st\<lparr>backend := b\<rparr>),
                      io := io w @ [IORead sid],
                      workflow_session := found\<rparr>
           in case found of
                None \<Rightarrow> (w1, Return None)
              | Some session \<Rightarrow>
                  (let (w2, session1, r) = load_workflow_session E w1 session;
                       w3 = w2\<lparr>workflow_session := Some session1\<rparr>
                   in case r of
                        Raise e \<Rightarrow> (w3, Raise e)
                      | Return _ \<Rightarrow> (w3, Return (Some session1))))
      | _ \<Rightarrow> (w, Return (workflow_session w)))"

definition write_to_storage ::
  "'s env \<Rightarrow> 's workflow \<Rightarrow> 's workflow \<times> workflow_session option" where
  "write_to_storage E w =
     (case storage w of
        None \<Rightarrow> (w, workflow_session w)
      | Some st \<Rightarrow>
          (let session = get_workflow_session E w;
               (saved, b) = storage_upsert E (backend st) session
           in (w\<lparr>storage := Some (st\<lparr>backend := b\<rparr>),
                 io := io w @ [IOUpsert session],
                 workflow_session := saved\<rparr>, saved)))"

definition cached_session_matches :: "'s workflow \<Rightarrow> bool" where
  "cached_session_matches w =
     (case workflow_session w of
        None \<Rightarrow> False
      | Some session \<Rightarrow> session_id w \<noteq> None \<and> ws_session_id session = session_id w)"

definition load_session ::
  "'s env \<Rightarrow> 's workflow \<Rightarrow> bool \<Rightarrow> 's workflow \<times> string option result" where
  "load_session E w force =
     (if workflow_session w \<noteq> None \<and> \<not> force \<and> cached_session_matches w
      then (w, Return (Option.bind (workflow_session w) ws_session_id))
      else if storage w \<noteq> None then
        (let (w1, r) = read_from_storage E w
         in case r of
              Raise e \<Rightarrow> (w1, Raise e)
            | Return _ \<Rightarrow>
                if workflow_session w1 = None then
                  (let (w2, saved) = write_to_storage E w1
                   in if workflow_session w2 = None
                      then (w2, Raise SessionCreateFailed)
                      else (w2, Return (session_id w2)))
                else (w1, Return (session_id w1)))
      else (w, Return (session_id w)))"

definition new_session :: "'s env \<Rightarrow> 's workflow \<Rightarrow> 's workflow \<times> unit result" where
  "new_session E w =
     (let (u, w1) = new_uuid E (w\<lparr>workflow_session := None\<rparr>);
          (w2, r) = load_session E (w1\<lparr>session_id := Some u\<rparr>) True
      in case r of Raise e \<Rightarrow> (w2, Raise e) | Return _ \<Rightarrow> (w2, Return ()))"


section \<open>Running the workflow\<close>

text \<open>
  \<open>update_agent_session_ids\<close> walks the dataclass fields and tests the field's declared
  type \<open>f.type\<close> with \<open>isinstance(field_type, Agent)\<close>; only then does it fetch the
  field's value and assign its \<open>session_id\<close>. Fetching a missing attribute and assigning
  an attribute of a plain value raise \<open>AttributeError\<close>; a class object accepts the
  assignment, which the model does not track.
\<close>

definition set_agent_session_id ::
  "string \<Rightarrow> string option \<Rightarrow> string \<times> pyobj \<Rightarrow> string \<times> pyobj" where
  "set_agent_session_id field_name sid kv =
     (case kv of
        (k, AgentObj a) \<Rightarrow>
          if k = field_name then (k, AgentObj (a\<lparr>agent_session_id := sid\<rparr>)) else kv
      | _ \<Rightarrow> kv)"

fun update_agents :: "(string \<times> pyobj) list \<Rightarrow> 's workflow \<Rightarrow> 's workflow \<times> unit result" where
  "update_agents [] w = (w, Return ())"
| "update_agents ((field_name, AgentObj _) # fs) w =
     (case map_of (attrs w) field_name of
        None \<Rightarrow> (w, Raise AttributeError)
      | Some (ValObj _) \<Rightarrow> (w, Raise AttributeError)
      | Some (TypeObj _) \<Rightarrow> update_agents fs w
      | Some (AgentObj _) \<Rightarrow>
          update_agents fs
            (w\<lparr>attrs := map (set_agent_session_id field_name (session_id w)) (attrs w)\<rparr>))"
| "update_agents ((field_name, _) # fs) w = update_agents fs w"

definition update_agent_session_ids ::
  "'s wf_class \<Rightarrow> 's workflow \<Rightarrow> 's workflow \<times> unit result" where
  "update_agent_session_ids C w = update_agents (dc_fields C) w"

text \<open>The first statements of \<open>run_workflow\<close>: mode, debug flag, ids, memory, a new run
  id, the run input and a new \<open>RunResponse\<close>.\<close>

definition begin_run :: "'s env \<Rightarrow> 's workflow \<Rightarrow> dict \<Rightarrow> 's workflow" where
  "begin_run E w kwargs =
     (let w1 = initialize_memory
                 (set_session_id E (set_workflow_id E (set_debug E (set_storage_mode w))));
          (u, w2) = new_uuid E w1
      in w2\<lparr>run_id := Some u,
             run_input := Some kwargs,
             run_response := Some \<lparr> rr_run_id = Some u,
                                    rr_session_id = session_id w2,
                                    rr_workflow_id = workflow_id w2,
                                    rr_content = VNone \<rparr>\<rparr>)"

text \<open>\<open>self._subclass_run(**kwargs)\<close>: the subclass's \<open>run\<close>, or \<open>Workflow.run\<close> itself
  when the subclass has none (it logs an error and returns \<open>None\<close>).\<close>

definition Workflow_run :: "'s wf_class \<Rightarrow> 's workflow \<Rightarrow> 's workflow" where
  "Workflow_run C w = log_add (ErrorNotImplemented (class_name C)) w"

definition subclass_run ::
  "'s wf_class \<Rightarrow> dict \<Rightarrow> 's workflow \<Rightarrow> 's workflow \<times> routine_result" where
  "subclass_run C kwargs w =
     (case routine C of
        None \<Rightarrow> (Workflow_run C w, Returns (ResOther VNone))
      | Some f \<Rightarrow> (w, f kwargs w))"

definition stamp :: "'s workflow \<Rightarrow> run_response \<Rightarrow> run_response" where
  "stamp w r = r\<lparr>rr_run_id := run_id w,
                  rr_session_id := session_id w,
                  rr_workflow_id := workflow_id w\<rparr>"

text \<open>The end of a run, the same two statements on both paths: the run is added to the
  memory and the session is written to storage.\<close>

definition finish_run :: "'s env \<Rightarrow> 's workflow \<Rightarrow> 's workflow \<times> unit result" where
  "finish_run E w =
     (case memory w of
        None \<Rightarrow> (w, Raise AttributeError)
      | Some m \<Rightarrow>
          (let run = \<lparr> run_input_of = run_input w, run_response_of = run_response w \<rparr>
           in (fst (write_to_storage E (w\<lparr>memory := Some (add_run m run)\<rparr>)), Return ())))"

text \<open>The returned iterator. \<open>content += s\<close> concatenates onto a string, extends a list
  by the characters of \<open>s\<close>, and is a \<open>TypeError\<close> on anything else.\<close>

datatype generator = GenSuspended "item list" "exn option" | GenFinished

datatype ret = RetNone | RetResponse run_response | RetGenerator generator

fun py_iadd :: "pyval \<Rightarrow> string \<Rightarrow> pyval option" where
  "py_iadd (VStr acc) s = Some (VStr (acc @ s))"
| "py_iadd (VList xs) s = Some (VList (xs @ map (\<lambda>c. VStr [c]) s))"
| "py_iadd _ s = None"

text \<open>The body of the \<open>for\<close> loop up to its \<open>yield\<close>.\<close>

fun process_item :: "'s workflow \<Rightarrow> item \<Rightarrow> 's workflow \<times> item result" where
  "process_item w (ItemResponse r) =
     (case rr_content r of
        VStr s \<Rightarrow>
          (case run_response w of
             None \<Rightarrow> (w, Raise AttributeError)
           | Some outer \<Rightarrow>
               (case py_iadd (rr_content outer) s of
                  None \<Rightarrow> (w, Raise TypeError)
                | Some c \<Rightarrow>
                    (w\<lparr>run_response := Some (outer\<lparr>rr_content := c\<rparr>)\<rparr>,
                     Return (ItemResponse (stamp w r)))))
      | _ \<Rightarrow> (w, Return (ItemResponse (stamp w r))))"
| "process_item w (ItemOther v) = (log_add (WarnYieldType v) w, Return (ItemOther v))"

text \<open>One \<open>next()\<close> on the iterator: \<open>Return None\<close> is \<open>StopIteration\<close>. The statements
  after the loop run when the underlying iterator is exhausted, once; when the underlying
  iterator raises instead, its exception leaves the loop and they do not run.\<close>

fun generator_next ::
  "'s env \<Rightarrow> 's workflow \<Rightarrow> generator \<Rightarrow> 's workflow \<times> generator \<times> item option result" where
  "generator_next E w GenFinished = (w, GenFinished, Return None)"
| "generator_next E w (GenSuspended [] None) =
     (case finish_run E w of
        (w1, Raise e) \<Rightarrow> (w1, GenFinished, Raise e)
      | (w1, Return _) \<Rightarrow> (w1, GenFinished, Return None))"
| "generator_next E w (GenSuspended [] (Some e)) = (w, GenFinished, Raise e)"
| "generator_next E w (GenSuspended (x # xs) ending) =
     (case process_item w x of
        (w1, Raise e) \<Rightarrow> (w1, GenFinished, Raise e)
      | (w1, Return y) \<Rightarrow> (w1, GenSuspended xs ending, Return (Some y)))"

text \<open>Consuming the iterator to its end (\<open>list(...)\<close>, a \<open>for\<close> loop that is not left
  early): the items received, and how the iteration ended.\<close>

fun generator_size :: "generator \<Rightarrow> nat" where
  "generator_size GenFinished = 0"
| "generator_size (GenSuspended xs ending) = Suc (length xs)"

function consume ::
  "'s env \<Rightarrow> 's workflow \<Rightarrow> generator \<Rightarrow> 's workflow \<times> item list \<times> unit result" where
  "consume E w g =
     (case generator_next E w g of
        (w1, g1, Raise e) \<Rightarrow> (w1, [], Raise e)
      | (w1, g1, Return None) \<Rightarrow> (w1, [], Return ())
      | (w1, g1, Return (Some y)) \<Rightarrow>
          (case consume E w1 g1 of (w2, ys, r) \<Rightarrow> (w2, y # ys, r)))"
  by pat_completeness auto
termination
proof (relation "measure (\<lambda>(E, w, g). generator_size g)")
  show "wf (measure (\<lambda>(E, w, g). generator_size g))" by simp
next
  fix E :: "'s env" and w :: "'s workflow" and g x2 and w1 :: "'s workflow" and y g1 x2a xa
  assume "(w1, x2) = generator_next E w g" "(g1, x2a) = x2" "x2a = Return xa" "xa = Some y"
  then have "generator_next E w g = (w1, g1, Return (Some y))" by simp
  then have "generator_size g1 < generator_size g"
    by (cases "(E, w, g)" rule: generator_next.cases) (auto split: prod.splits result.splits)
  then show "((E, w1, g1), (E, w, g)) \<in> measure (\<lambda>(E, w, g). generator_size g)" by simp
qed

declare consume.simps [simp del]

text \<open>The second part of \<open>run_workflow\<close>: what is done with the routine's value.\<close>

definition handle_value ::
  "'s env \<Rightarrow> 's workflow \<Rightarrow> routine_value \<Rightarrow> 's workflow \<times> ret result" where
  "handle_value E w v =
     (case v of
        ResIterator items ending \<Rightarrow>
          (case run_response w of
             None \<Rightarrow> (w, Raise AttributeError)
           | Some outer \<Rightarrow>
               (w\<lparr>run_response := Some (outer\<lparr>rr_content := VStr []\<rparr>)\<rparr>,
                Return (RetGenerator (GenSuspended items ending))))
      | ResResponse result \<Rightarrow>
          (let stamped = stamp w result;
               set_content =
                 (case rr_content result of
                    VStr s \<Rightarrow>
                      (case run_response w of
                         None \<Rightarrow> (w, Raise AttributeError)
                       | Some outer \<Rightarrow>
                           (w\<lparr>run_response := Some (outer\<lparr>rr_content := VStr s\<rparr>)\<rparr>, Return ()))
                  | _ \<Rightarrow> (w, Return ()))
           in case set_content of
                (w1, Raise e) \<Rightarrow> (w1, Raise e)
              | (w1, Return _) \<Rightarrow>
                  (case finish_run E w1 of
                     (w2, Raise e) \<Rightarrow> (w2, Raise e)
                   | (w2, Return _) \<Rightarrow> (w2, Return (RetResponse stamped))))
      | ResOther other \<Rightarrow> (log_add (WarnReturnType other) w, Return RetNone))"

text \<open>\<open>run_workflow\<close> up to the call of the subclass routine: the first statements,
  the read of the persisted session, the agents' session ids. The instance it returns is
  the one the routine is invoked on.\<close>

definition prepare_run ::
  "'s wf_class \<Rightarrow> 's env \<Rightarrow> 's workflow \<Rightarrow> dict \<Rightarrow> 's workflow \<times> unit result" where
  "prepare_run C E w kwargs =
     (case read_from_storage E (begin_run E w kwargs) of
        (w1, Raise e) \<Rightarrow> (w1, Raise e)
      | (w1, Return _) \<Rightarrow> update_agent_session_ids C w1)"

definition run_workflow ::
  "'s wf_class \<Rightarrow> 's env \<Rightarrow> 's workflow \<Rightarrow> dict \<Rightarrow> 's workflow \<times> ret result" where
  "run_workflow C E w kwargs =
     (case prepare_run C E w kwargs of
        (w1, Raise e) \<Rightarrow> (w1, Raise e)
      | (w1, Return _) \<Rightarrow>
          (case subclass_run C kwargs w1 of
             (w2, Raises e) \<Rightarrow> (log_add (ErrorRunFailed e) w2, Raise e)
           | (w2, Returns v) \<Rightarrow> handle_value E w2 v))"

text \<open>The public entry point \<open>run\<close>: \<open>update_run_method\<close> has replaced it by
  \<open>run_workflow\<close> when the subclass overrides \<open>run\<close>; otherwise it is \<open>Workflow.run\<close>.\<close>

definition run ::
  "'s wf_class \<Rightarrow> 's env \<Rightarrow> 's workflow \<Rightarrow> dict \<Rightarrow> 's workflow \<times> ret result" where
  "run C E w kwargs =
     (case routine C of
        None \<Rightarrow> (Workflow_run C w, Return RetNone)
      | Some f \<Rightarrow> run_workflow C E w kwargs)"


section \<open>Notions used by the properties\<close>

text \<open>The persisted session-state mapping of a record: the \<open>dict\<close> under
  \<open>session_data["session_state"]\<close>, absent when there is no session data, no such key, or
  a value that is not a mapping.\<close>

definition persisted_session_state :: "workflow_session \<Rightarrow> dict option" where
  "persisted_session_state session =
     (case ws_session_data session of
        None \<Rightarrow> None
      | Some sd \<Rightarrow> (case map_of sd ''session_state'' of Some (VDict d) \<Rightarrow> Some d | _ \<Rightarrow> None))"

definition is_str :: "pyval \<Rightarrow> bool" where
  "is_str v = (case v of VStr _ \<Rightarrow> True | _ \<Rightarrow> False)"

text \<open>The textual content of an item, as the wrapper accumulates it, and the item as the
  consumer receives it.\<close>

fun item_text :: "item \<Rightarrow> string" where
  "item_text (ItemResponse r) = (case rr_content r of VStr s \<Rightarrow> s | _ \<Rightarrow> [])"
| "item_text (ItemOther v) = []"

text \<open>The warning the loop logs for an item: none for a \<open>RunResponse\<close>.\<close>

fun yield_warning :: "item \<Rightarrow> log_entry list" where
  "yield_warning (ItemResponse r) = []"
| "yield_warning (ItemOther v) = [WarnYieldType v]"

fun stamp_item :: "'s workflow \<Rightarrow> item \<Rightarrow> item" where
  "stamp_item w (ItemResponse r) = ItemResponse (stamp w r)"
| "stamp_item w (ItemOther v) = ItemOther v"

definition upserts :: "'s workflow \<Rightarrow> nat" where
  "upserts w = length (filter is_upsert (io w))"

text \<open>One call of the entry point by a caller who either consumes a returned iterator
  to its end or drops it: the instance when the call is over, whether it returned or
  raised.\<close>

definition call_once :: "'s wf_class \<Rightarrow> 's env \<Rightarrow> 's workflow \<Rightarrow> dict \<Rightarrow> bool \<Rightarrow> 's workflow" where
  "call_once C E w kwargs drain =
     (let (w1, r) = run C E w kwargs
      in case r of
           Return (RetGenerator g) \<Rightarrow> if drain then fst (consume E w1 g) else w1
         | _ \<Rightarrow> w1)"

text \<open>A series of such calls on one instance: the instance after the last call and, for
  every call, the run id, workflow id and session id the instance holds when the call is
  over.\<close>

fun invoke_all ::
  "'s wf_class \<Rightarrow> 's env \<Rightarrow> 's workflow \<Rightarrow> (dict \<times> bool) list
     \<Rightarrow> 's workflow \<times> (string option \<times> string option \<times> string option) list" where
  "invoke_all C E w [] = (w, [])"
| "invoke_all C E w ((kwargs, drain) # calls) =
     (let w2 = call_once C E w kwargs drain;
          (w3, ids) = invoke_all C E w2 calls
      in (w3, (run_id w2, workflow_id w2, session_id w2) # ids))"

text \<open>Groups of fields that whole blocks of the code leave alone: the run's own
  bookkeeping and the agents; the three identifiers; the storage side.\<close>

definition run_frame ::
  "'s workflow \<Rightarrow> nat \<times> string option \<times> dict option \<times> run_response option \<times> (string \<times> pyobj) list" where
  "run_frame w = (uuid_calls w, run_id w, run_input w, run_response w, attrs w)"

definition id_frame :: "'s workflow \<Rightarrow> string option \<times> string option \<times> string option" where
  "id_frame w = (workflow_id w, session_id w, user_id w)"

definition io_frame :: "'s workflow \<Rightarrow> io_event list \<times> 's storage option" where
  "io_frame w = (io w, storage w)"

text \<open>\<open>n\<close> calls of \<open>next()\<close> on the iterator, stopping early when it ends or raises:
  the instance, the iterator and the items received so far.\<close>

fun take_next ::
  "'s env \<Rightarrow> nat \<Rightarrow> 's workflow \<Rightarrow> generator \<Rightarrow> 's workflow \<times> generator \<times> item list" where
  "take_next E 0 w g = (w, g, [])"
| "take_next E (Suc n) w g =
     (case generator_next E w g of
        (w1, g1, Return (Some y)) \<Rightarrow>
          (case take_next E n w1 g1 of (w2, g2, ys) \<Rightarrow> (w2, g2, y # ys))
      | (w1, g1, _) \<Rightarrow> (w1, g1, []))"


section \<open>Example instances\<close>

text \<open>A storage backend that keeps its records in a table keyed by session id, a
  backend whose upsert saves nothing, and a subclass with a given \<open>run\<close>.\<close>

definition table_env :: "(string \<times> workflow_session) list env" where
  "table_env =
     \<lparr> uuid4 = (\<lambda>n. CHR ''u'' # replicate n CHR ''i''),
       agno_debug = False,
       storage_read = (\<lambda>b sid. (map_of b sid, b)),
       storage_upsert =
         (\<lambda>b session. case ws_session_id session of
                         None \<Rightarrow> (None, b)
                       | Some sid \<Rightarrow> (Some session, (sid, session) # b)),
       memory_to_dict = (\<lambda>m. []),
       workflow_run_of = (\<lambda>d. None),
       nested_model_dump = VDict,
       image_validate = (\<lambda>v. case v of VDict d \<Rightarrow> Some (Artifact d) | _ \<Rightarrow> None),
       video_validate = (\<lambda>v. case v of VDict d \<Rightarrow> Some (Artifact d) | _ \<Rightarrow> None),
       audio_validate = (\<lambda>v. case v of VDict d \<Rightarrow> Some (Artifact d) | _ \<Rightarrow> None) \<rparr>"

definition failing_env :: "(string \<times> workflow_session) list env" where
  "failing_env = table_env\<lparr>storage_upsert := (\<lambda>b session. (None, b))\<rparr>"

definition demo_class ::
  "(dict \<Rightarrow> (string \<times> workflow_session) list workflow \<Rightarrow> routine_result) option
     \<Rightarrow> (string \<times> workflow_session) list wf_class" where
  "demo_class f =
     \<lparr> class_name = ''Demo'', class_description = None, routine = f,
       class_dict = [], dc_fields = [] \<rparr>"

definition demo_args :: "(string \<times> workflow_session) list init_args" where
  "demo_args =
     \<lparr> arg_name = None, arg_workflow_id = None, arg_description = None, arg_user_id = None,
       arg_session_id = None, arg_session_name = None, arg_session_state = None,
       arg_memory = None, arg_storage = None, arg_extra_data = None,
       arg_debug_mode = False \<rparr>"

definition empty_table :: "(string \<times> workflow_session) list storage" where
  "empty_table = \<lparr> mode = ''workflow'', backend = [] \<rparr>"

definition response_of :: "pyval \<Rightarrow> run_response" where
  "response_of c =
     \<lparr> rr_run_id = None, rr_session_id = None, rr_workflow_id = None, rr_content = c \<rparr>"

definition abc_items :: "item list" where
  "abc_items = [ItemResponse (response_of (VStr ''a'')),
                ItemResponse (response_of (VStr ''b'')),
                ItemResponse (response_of (VStr ''c''))]"

definition abc_routine ::
  "dict \<Rightarrow> (string \<times> workflow_session) list workflow \<Rightarrow> routine_result" where
  "abc_routine kwargs w = Returns (ResIterator abc_items None)"

definition session_with_state :: "dict \<Rightarrow> workflow_session" where
  "session_with_state d =
     \<lparr> ws_session_id = Some ''s1'', ws_workflow_id = Some ''w1'', ws_user_id = None,
       ws_memory = None, ws_workflow_data = None,
       ws_session_data = Some [(''session_state'', VDict d)], ws_extra_data = None \<rparr>"

text \<open>A subclass as workflows are usually written: an agent as a class attribute
  annotated with the type \<open>Agent\<close>; and the instance \<open>Blog()\<close>.\<close>

definition agent_class :: "(string \<times> workflow_session) list wf_class" where
  "agent_class =
     \<lparr> class_name = ''Blog'', class_description = None,
       routine = Some (\<lambda>kwargs w. Returns (ResResponse (response_of (VStr ''done'')))),
       class_dict = [(''writer'', AgentObj \<lparr> agent_session_id = None \<rparr>)],
       dc_fields = [(''name'', TypeObj ''Optional[str]''),
                    (''session_id'', TypeObj ''Optional[str]''),
                    (''writer'', TypeObj ''Agent'')] \<rparr>"

definition agent_instance :: "(string \<times> workflow_session) list workflow" where
  "agent_instance = Workflow_init agent_class demo_args"

text \<open>Instances with a session id: one that holds a cached record for it, one that
  only has an empty storage.\<close>

definition demo_instance :: "(string \<times> workflow_session) list workflow" where
  "demo_instance = Workflow_init (demo_class None) demo_args"

definition stored_instance :: "(string \<times> workflow_session) list workflow" where
  "stored_instance =
     Workflow_init (demo_class None)
       (demo_args\<lparr>arg_session_id := Some ''s1'', arg_storage := Some empty_table\<rparr>)"

definition cached_instance :: "(string \<times> workflow_session) list workflow" where
  "cached_instance = stored_instance\<lparr>workflow_session := Some (session_with_state [])\<rparr>"

text \<open>Subclasses whose \<open>run\<close> raises, is a generator that yields \<open>a\<close> and then raises,
  returns one response with a given content, and yields the three responses \<open>a\<close>,
  \<open>b\<close>, \<open>c\<close>.\<close>

definition failing_class :: "(string \<times> workflow_session) list wf_class" where
  "failing_class = demo_class (Some (\<lambda>kwargs w. Raises (UserException ''boom'')))"

definition failing_iterator_class :: "(string \<times> workflow_session) list wf_class" where
  "failing_iterator_class =
     demo_class (Some (\<lambda>kwargs w.
       Returns (ResIterator [ItemResponse (response_of (VStr ''a''))]
                  (Some (UserException ''boom'')))))"

definition single_class :: "pyval \<Rightarrow> (string \<times> workflow_session) list wf_class" where
  "single_class c = demo_class (Some (\<lambda>kwargs w. Returns (ResResponse (response_of c))))"

definition abc_class :: "(string \<times> workflow_session) list wf_class" where
  "abc_class = demo_class (Some abc_routine)"

text \<open>An instance of a subclass without a \<open>run\<close> of its own, constructed with a
  given session state.\<close>

definition live_instance :: "dict \<Rightarrow> (string \<times> workflow_session) list workflow" where
  "live_instance d = Workflow_init (demo_class None) (demo_args\<lparr>arg_session_state := Some d\<rparr>)"


section \<open>The deep merge\<close>

lemma merge_step:
  "merge_dictionaries a ((key, bv) # b) =
     merge_dictionaries (dict_set a key (merged_value (map_of a key) bv)) b"
  by (simp add: merged_value_def)

lemma map_of_dict_set: "map_of (dict_set d k v) = (map_of d)(k \<mapsto> v)"
  by (induction d) (auto simp: fun_eq_iff)

lemma keys_dict_set:
  "map fst (dict_set d k v) = (if k \<in> set (map fst d) then map fst d else map fst d @ [k])"
  by (induction d) (auto simp: rev_image_eqI)

lemma merge_lookup:
  "distinct (map fst b) \<Longrightarrow>
   map_of (merge_dictionaries a b) k =
     (case map_of b k of
        None \<Rightarrow> map_of a k
      | Some bv \<Rightarrow> Some (merged_value (map_of a k) bv))"
proof (induction b arbitrary: a)
  case Nil
  then show ?case by simp
next
  case (Cons x b)
  obtain key bv where x: "x = (key, bv)" by (cases x)
  from Cons.prems x have nk: "map_of b key = None" and d: "distinct (map fst b)"
    by (auto simp: map_of_eq_None_iff)
  show ?case
    unfolding x merge_step
    using nk by (simp add: Cons.IH [OF d] map_of_dict_set split: option.split)
qed


lemma merge_keys:
  "distinct (map fst b) \<Longrightarrow>
   map fst (merge_dictionaries a b) =
     map fst a @ filter (\<lambda>k. k \<notin> set (map fst a)) (map fst b)"
proof (induction b arbitrary: a)
  case Nil
  then show ?case by simp
next
  case (Cons x b)
  obtain key bv where x: "x = (key, bv)" by (cases x)
  from Cons.prems x have nk: "key \<notin> set (map fst b)" and d: "distinct (map fst b)"
    by auto
  have f: "filter (\<lambda>k. k \<noteq> key \<and> k \<notin> set (map fst a)) (map fst b)
         = filter (\<lambda>k. k \<notin> set (map fst a)) (map fst b)"
    using nk by (intro filter_cong) auto
  show ?case
    unfolding x merge_step
    using f by (simp add: Cons.IH [OF d] keys_dict_set del: set_map)
qed

lemma merge_keys_distinct:
  "distinct (map fst a) \<Longrightarrow> distinct (map fst b) \<Longrightarrow>
   distinct (map fst (merge_dictionaries a b))"
  by (auto simp: merge_keys)

lemma merge_nonempty: "distinct (map fst b) \<Longrightarrow> a \<noteq> [] \<Longrightarrow> merge_dictionaries a b \<noteq> []"
proof
  assume d: "distinct (map fst b)" and a: "a \<noteq> []" and m: "merge_dictionaries a b = []"
  from merge_keys [OF d, of a] m have "map fst a = []" by simp
  with a show False by simp
qed

lemma alist_eqI:
  "distinct (map fst xs) \<Longrightarrow> map fst xs = map fst ys \<Longrightarrow> map_of xs = map_of ys \<Longrightarrow> xs = ys"
proof (induction xs arbitrary: ys)
  case Nil
  then show ?case by simp
next
  case (Cons x xs)
  then obtain y ys' where ys: "ys = y # ys'" by (cases ys) auto
  obtain k v where x: "x = (k, v)" by (cases x)
  obtain k' v' where y: "y = (k', v')" by (cases y)
  from Cons.prems(1) x have nk: "k \<notin> set (map fst xs)" and d: "distinct (map fst xs)"
    by simp_all
  from Cons.prems(2) ys x y have kk: "k' = k" and keys: "map fst xs = map fst ys'"
    by simp_all
  have eq: "map_of (x # xs) j = map_of ys j" for j
    using Cons.prems(3) by (rule fun_cong)
  have vv: "v' = v" using eq [of k] by (simp add: x y ys kk)
  have "map_of xs j = map_of ys' j" for j
  proof (cases "j = k")
    case True
    have "map_of xs k = None" using nk by (simp add: map_of_eq_None_iff)
    moreover have "k \<notin> fst ` set ys'" using nk unfolding keys by simp
    then have "map_of ys' k = None" by (simp add: map_of_eq_None_iff)
    ultimately show ?thesis using True by simp
  next
    case False
    show ?thesis using eq [of j] False by (simp add: x y ys kk)
  qed
  then have "map_of xs = map_of ys'" by (simp add: fun_eq_iff)
  then have "xs = ys'" using Cons.IH d keys by blast
  then show ?case by (simp add: x y ys kk vv)
qed

lemma size_dict_value: "(k, v) \<in> set d \<Longrightarrow> size v < size (VDict d)"
  by (induction d) auto

lemma py_ok_value: "py_ok (VDict d) \<Longrightarrow> map_of d k = Some v \<Longrightarrow> py_ok v"
  by (auto dest: map_of_SomeD)

lemma merge_self: "py_ok (VDict d) \<Longrightarrow> merge_dictionaries d d = d"
proof (induction "size (VDict d)" arbitrary: d rule: less_induct)
  case less
  from less.prems have dist: "distinct (map fst d)" by simp
  have keys: "map fst (merge_dictionaries d d) = map fst d"
    by (simp add: merge_keys [OF dist])
  have val: "merged_value (Some v) v = v" if "map_of d k = Some v" for k v
  proof (cases v)
    case (VDict dd)
    from that have "(k, v) \<in> set d" by (rule map_of_SomeD)
    then have "size (VDict dd) < size (VDict d)" unfolding VDict [symmetric] by (rule size_dict_value)
    moreover have "py_ok (VDict dd)" using py_ok_value [OF less.prems that] VDict by simp
    ultimately have "merge_dictionaries dd dd = dd" by (rule less.hyps)
    then show ?thesis by (simp add: merged_value_def VDict)
  qed (simp_all add: merged_value_def)
  have "map_of (merge_dictionaries d d) k = map_of d k" for k
    by (simp add: merge_lookup [OF dist] val split: option.split)
  then have "map_of (merge_dictionaries d d) = map_of d" by (simp add: fun_eq_iff)
  moreover have "distinct (map fst (merge_dictionaries d d))" using keys dist by simp
  ultimately show ?case using keys by (intro alist_eqI)
qed

lemma merged_value_idem:
  assumes nested: "\<And>pd ld. pv = Some (VDict pd) \<Longrightarrow> lv = VDict ld \<Longrightarrow>
      merge_dictionaries pd (merge_dictionaries pd ld) = merge_dictionaries pd ld"
  shows "merged_value pv (merged_value pv lv) = merged_value pv lv"
  using nested by (auto simp: merged_value_def split: option.splits pyval.splits)

lemma merge_idempotent:
  "py_ok (VDict p) \<Longrightarrow> py_ok (VDict l) \<Longrightarrow>
   merge_dictionaries p (merge_dictionaries p l) = merge_dictionaries p l"
proof (induction "size (VDict p)" arbitrary: p l rule: less_induct)
  case less
  let ?m = "merge_dictionaries p l"
  from less.prems have dp: "distinct (map fst p)" and dl: "distinct (map fst l)" by simp_all
  have dm: "distinct (map fst ?m)" using dp dl by (rule merge_keys_distinct)
  have keys: "map fst (merge_dictionaries p ?m) = map fst ?m"
    by (simp add: merge_keys [OF dm] merge_keys [OF dl])
  have idem: "merged_value (map_of p k) (merged_value (map_of p k) lv) = merged_value (map_of p k) lv"
    if "map_of l k = Some lv" for k lv
  proof (rule merged_value_idem)
    fix pd ld assume p: "map_of p k = Some (VDict pd)" and l: "lv = VDict ld"
    from p have "(k, VDict pd) \<in> set p" by (rule map_of_SomeD)
    then have "size (VDict pd) < size (VDict p)" by (rule size_dict_value)
    moreover have "py_ok (VDict pd)" using py_ok_value [OF less.prems(1) p] .
    moreover have "py_ok (VDict ld)" using py_ok_value [OF less.prems(2) that] l by simp
    ultimately show "merge_dictionaries pd (merge_dictionaries pd ld) = merge_dictionaries pd ld"
      by (rule less.hyps)
  qed
  have self: "merged_value (Some v) v = v" if "map_of p k = Some v" for k v
  proof (cases v)
    case (VDict dd)
    have "py_ok (VDict dd)" using py_ok_value [OF less.prems(1) that] VDict by simp
    then show ?thesis by (simp add: merged_value_def VDict merge_self)
  qed (simp_all add: merged_value_def)
  have "map_of (merge_dictionaries p ?m) k = map_of ?m k" for k
  proof (cases "map_of l k")
    case None
    then show ?thesis
      by (cases "map_of p k") (simp_all add: merge_lookup [OF dm] merge_lookup [OF dl] self)
  next
    case (Some lv)
    then show ?thesis
      by (simp add: merge_lookup [OF dm] merge_lookup [OF dl] idem)
  qed
  then have "map_of (merge_dictionaries p ?m) = map_of ?m" by (simp add: fun_eq_iff)
  moreover have "distinct (map fst (merge_dictionaries p ?m))" using keys dm by simp
  ultimately show ?case using keys by (intro alist_eqI)
qed

section \<open>Session state across a load\<close>

lemma load_session_state_eq:
  "session_state (fst (load_session_state w sd)) =
     (case persisted_session_state (s\<lparr>ws_session_data := Some sd\<rparr>) of
        None \<Rightarrow> session_state w
      | Some db \<Rightarrow>
          if db = [] then session_state w
          else if session_state w = [] then db
          else merge_dictionaries db (session_state w))"
  by (auto simp: load_session_state_def persisted_session_state_def dict_has_def dict_get_def
      Let_def split: option.splits pyval.splits)

lemma load_ids_state [simp]: "session_state (load_ids w s) = session_state w"
  by (simp add: load_ids_def Let_def)

lemma load_name_state [simp]: "session_state (load_name w s) = session_state w"
  by (simp add: load_name_def split: option.splits)

lemma load_session_name_state [simp]: "session_state (load_session_name w sd) = session_state w"
  by (simp add: load_session_name_def)

lemma load_media_state [simp]: "session_state (fst (load_media E w sd)) = session_state w"
  by (simp add: load_media_def Let_def split: prod.splits result.splits)

lemma load_extra_data_state [simp]: "session_state (fst (load_extra_data w s)) = session_state w"
  by (simp add: load_extra_data_def Let_def split: option.splits)

lemma load_memory_state [simp]: "session_state (load_memory E w s) = session_state w"
  by (simp add: load_memory_def Let_def log_add_def split: option.splits)

lemma load_workflow_session_state_eq:
  "session_state (fst (load_workflow_session E w s)) =
     (case ws_session_data s of
        None \<Rightarrow> session_state w
      | Some sd \<Rightarrow> session_state (fst (load_session_state (load_session_name (load_name (load_ids w s) s) sd) sd)))"
  by (simp add: load_workflow_session_def Let_def case_prod_beta
      split: option.splits result.splits)


lemma session_state_after_load:
  "session_state (fst (load_workflow_session E w session)) =
     (case persisted_session_state session of
        None \<Rightarrow> session_state w
      | Some db \<Rightarrow>
          if db = [] then session_state w
          else if session_state w = [] then db
          else merge_dictionaries db (session_state w))"
proof (cases "ws_session_data session")
  case None
  then show ?thesis
    by (simp add: load_workflow_session_state_eq persisted_session_state_def)
next
  case (Some sd)
  have "persisted_session_state (session\<lparr>ws_session_data := Some sd\<rparr>)
      = persisted_session_state session"
    using Some by (simp add: persisted_session_state_def)
  then show ?thesis
    using Some load_session_state_eq [of "load_session_name (load_name (load_ids w session) session) sd" sd session]
    by (simp add: load_workflow_session_state_eq split: option.splits)
qed

text \<open>
  C2. Loading a persisted record sets the live session state as follows: when the
  persisted session-state mapping is absent or empty the live state is unchanged; when it
  is non-empty and the live state is empty the live state becomes the persisted mapping;
  when both are non-empty the live state becomes the deep merge of the two. In the merge
  a key of the live state keeps the live value, except that two mappings under the same
  key are merged recursively, and a key only the persisted mapping has keeps the persisted
  value. This holds whether or not a later block of the load raises.
\<close>

theorem load_workflow_session_merges_state:
  "session_state (fst (load_workflow_session E w session)) =
     (case persisted_session_state session of
        None \<Rightarrow> session_state w
      | Some db \<Rightarrow>
          if db = [] then session_state w
          else if session_state w = [] then db
          else merge_dictionaries db (session_state w))
   \<and> (distinct (map fst (session_state w)) \<longrightarrow>
      (\<forall>db key.
        map_of (merge_dictionaries db (session_state w)) key =
          (case map_of (session_state w) key of
             None \<Rightarrow> map_of db key
           | Some live \<Rightarrow>
               (case map_of db key of
                  Some (VDict nested_db) \<Rightarrow>
                    (case live of
                       VDict nested_live \<Rightarrow>
                         Some (VDict (merge_dictionaries nested_db nested_live))
                     | _ \<Rightarrow> Some live)
                | _ \<Rightarrow> Some live))))"
  by (auto simp: session_state_after_load merge_lookup merged_value_def
      split: option.splits pyval.splits)

lemma live_instance_state: "session_state (live_instance d) = d"
  by (simp add: live_instance_def Workflow_init_def post_init_def demo_args_def dict_or_empty_def)

theorem load_workflow_session_merges_state_witness:
  "distinct (map fst [(''x'', VInt 2)])
   \<and> session_state (fst (load_workflow_session table_env (live_instance [(''x'', VInt 2)])
         (session_with_state [(''x'', VInt 1), (''y'', VInt 3)])))
       = [(''x'', VInt 2), (''y'', VInt 3)]
   \<and> session_state (fst (load_workflow_session table_env (live_instance [])
         (session_with_state [(''x'', VInt 1)])))
       = [(''x'', VInt 1)]
   \<and> session_state (fst (load_workflow_session table_env
         (live_instance [(''a'', VDict [(''q'', VInt 5)])])
         (session_with_state [(''a'', VDict [(''p'', VInt 1), (''q'', VInt 2)])])))
       = [(''a'', VDict [(''p'', VInt 1), (''q'', VInt 5)])]
   \<and> map_of (merge_dictionaries [(''x'', VInt 1), (''y'', VInt 3)] [(''x'', VInt 2)]) ''y''
       = Some (VInt 3)"
  using load_workflow_session_merges_state
      [where w = "live_instance [(''a'', VDict [(''q'', VInt 5)])]" and E = table_env
         and session = "session_with_state [(''a'', VDict [(''p'', VInt 1), (''q'', VInt 2)])]"]
    load_workflow_session_merges_state
      [where w = "live_instance [(''x'', VInt 2)]" and E = table_env
         and session = "session_with_state [(''x'', VInt 1), (''y'', VInt 3)]"]
    load_workflow_session_merges_state
      [where w = "live_instance []" and E = table_env
         and session = "session_with_state [(''x'', VInt 1)]"]
  by (simp add: live_instance_state persisted_session_state_def session_with_state_def)

text \<open>
  C3. The session-state merge is idempotent: loading the same persisted record into an
  instance whose live state is the already merged mapping leaves that mapping as it is.
\<close>

theorem session_state_merge_idempotent:
  "py_ok (VDict (session_state w)) \<Longrightarrow>
   (\<forall>db. persisted_session_state session = Some db \<longrightarrow> py_ok (VDict db)) \<Longrightarrow>
   session_state w1 = session_state (fst (load_workflow_session E w session)) \<Longrightarrow>
   session_state (fst (load_workflow_session E1 w1 session)) = session_state w1"
proof -
  assume live: "py_ok (VDict (session_state w))"
    and db_ok: "\<forall>db. persisted_session_state session = Some db \<longrightarrow> py_ok (VDict db)"
    and w1: "session_state w1 = session_state (fst (load_workflow_session E w session))"
  show ?thesis
  proof (cases "persisted_session_state session")
    case None
    then show ?thesis by (simp add: session_state_after_load)
  next
    case (Some db)
    with db_ok have ok: "py_ok (VDict db)" by simp
    from live have dl: "distinct (map fst (session_state w))" by simp
    show ?thesis
    proof (cases "db = []")
      case True
      with Some show ?thesis by (simp add: session_state_after_load)
    next
      case False
      show ?thesis
      proof (cases "session_state w = []")
        case True
        with Some False w1 have "session_state w1 = db" by (simp add: session_state_after_load)
        with Some False show ?thesis by (simp add: session_state_after_load merge_self [OF ok])
      next
        case live_ne: False
        with Some False w1 have m: "session_state w1 = merge_dictionaries db (session_state w)"
          by (simp add: session_state_after_load)
        then have "session_state w1 \<noteq> []" using merge_nonempty [OF dl False] by simp
        with Some False m show ?thesis
          by (simp add: session_state_after_load merge_idempotent [OF ok live])
      qed
    qed
  qed
qed

theorem session_state_merge_idempotent_witness:
  "py_ok (VDict [(''x'', VInt 2)])
   \<and> py_ok (VDict [(''x'', VInt 1), (''y'', VInt 3)])
   \<and> session_state (fst (load_workflow_session table_env (live_instance [(''x'', VInt 2)])
         (session_with_state [(''x'', VInt 1), (''y'', VInt 3)])))
       = [(''x'', VInt 2), (''y'', VInt 3)]
   \<and> session_state (fst (load_workflow_session table_env
         (live_instance [(''x'', VInt 2), (''y'', VInt 3)])
         (session_with_state [(''x'', VInt 1), (''y'', VInt 3)])))
       = [(''x'', VInt 2), (''y'', VInt 3)]"
  using session_state_merge_idempotent
      [of "live_instance [(''x'', VInt 2)]"
          "session_with_state [(''x'', VInt 1), (''y'', VInt 3)]"
          "live_instance [(''x'', VInt 2), (''y'', VInt 3)]" table_env table_env]
  by (simp add: live_instance_state session_state_after_load
      persisted_session_state_def session_with_state_def)


section \<open>The entry point\<close>

text \<open>
  C4. When the subclass does not override \<open>run\<close>, the entry point logs the error that
  names the class, returns \<open>None\<close> without raising, and touches neither the storage nor
  the memory.
\<close>

theorem run_without_override:
  "routine C = None \<Longrightarrow>
   run C E w kwargs =
     (w\<lparr>logs := logs w @ [ErrorNotImplemented (class_name C)]\<rparr>, Return RetNone)
   \<and> io (fst (run C E w kwargs)) = io w
   \<and> storage (fst (run C E w kwargs)) = storage w
   \<and> workflow_session (fst (run C E w kwargs)) = workflow_session w
   \<and> memory (fst (run C E w kwargs)) = memory w"
  by (simp add: run_def Workflow_run_def log_add_def)

theorem run_without_override_witness:
  "routine (demo_class None) = None
   \<and> run (demo_class None) table_env (live_instance []) [(''topic'', VStr ''x'')] =
       ((live_instance [])\<lparr>logs := [ErrorNotImplemented ''Demo'']\<rparr>, Return RetNone)
   \<and> io (fst (run (demo_class None) table_env (live_instance []) [(''topic'', VStr ''x'')])) = []"
  using run_without_override
      [of "demo_class None" table_env "live_instance []" "[(''topic'', VStr ''x'')]"]
  by (simp add: demo_class_def live_instance_def Workflow_init_def post_init_def)


section \<open>What each operation leaves alone\<close>

lemmas frame_defs = run_frame_def id_frame_def io_frame_def

lemma load_ids_frame [simp]:
  "run_frame (load_ids w s) = run_frame w" "io_frame (load_ids w s) = io_frame w"
  "memory (load_ids w s) = memory w"
  by (simp_all add: frame_defs load_ids_def Let_def)

lemma load_ids_keeps:
  "workflow_id w \<noteq> None \<Longrightarrow> workflow_id (load_ids w s) = workflow_id w"
  "session_id w \<noteq> None \<Longrightarrow> session_id (load_ids w s) = session_id w"
  "user_id w \<noteq> None \<Longrightarrow> user_id (load_ids w s) = user_id w"
  by (auto simp: load_ids_def Let_def)

lemma load_name_frame [simp]:
  "run_frame (load_name w s) = run_frame w" "io_frame (load_name w s) = io_frame w"
  "id_frame (load_name w s) = id_frame w" "memory (load_name w s) = memory w"
  by (simp_all add: frame_defs load_name_def split: option.splits)

lemma load_session_name_frame [simp]:
  "run_frame (load_session_name w sd) = run_frame w"
  "io_frame (load_session_name w sd) = io_frame w"
  "id_frame (load_session_name w sd) = id_frame w"
  "memory (load_session_name w sd) = memory w"
  by (simp_all add: frame_defs load_session_name_def)

lemma load_session_state_frame [simp]:
  "run_frame (fst (load_session_state w sd)) = run_frame w"
  "io_frame (fst (load_session_state w sd)) = io_frame w"
  "id_frame (fst (load_session_state w sd)) = id_frame w"
  "memory (fst (load_session_state w sd)) = memory w"
  by (simp_all add: frame_defs load_session_state_def Let_def split: pyval.splits)

lemma load_media_frame [simp]:
  "run_frame (fst (load_media E w sd)) = run_frame w"
  "io_frame (fst (load_media E w sd)) = io_frame w"
  "id_frame (fst (load_media E w sd)) = id_frame w"
  "memory (fst (load_media E w sd)) = memory w"
  by (simp_all add: frame_defs load_media_def Let_def case_prod_beta split: result.splits)

lemma load_extra_data_frame [simp]:
  "run_frame (fst (load_extra_data w s)) = run_frame w"
  "io_frame (fst (load_extra_data w s)) = io_frame w"
  "id_frame (fst (load_extra_data w s)) = id_frame w"
  "memory (fst (load_extra_data w s)) = memory w"
  by (simp_all add: frame_defs load_extra_data_def Let_def split: option.splits)

lemma load_memory_frame [simp]:
  "run_frame (load_memory E w s) = run_frame w"
  "io_frame (load_memory E w s) = io_frame w"
  "id_frame (load_memory E w s) = id_frame w"
  by (simp_all add: frame_defs load_memory_def Let_def log_add_def split: option.splits)

lemma load_memory_memory: "memory w \<noteq> None \<Longrightarrow> memory (load_memory E w s) \<noteq> None"
  by (auto simp: load_memory_def Let_def log_add_def split: option.splits)


lemma load_workflow_session_frame [simp]:
  "run_frame (fst (load_workflow_session E w s)) = run_frame w"
  "io_frame (fst (load_workflow_session E w s)) = io_frame w"
  "id_frame (fst (load_workflow_session E w s)) = id_frame (load_ids w s)"
  by (simp_all add: load_workflow_session_def Let_def case_prod_beta
      split: option.splits result.splits)

lemma load_workflow_session_fields [simp]:
  "uuid_calls (fst (load_workflow_session E w s)) = uuid_calls w"
  "run_id (fst (load_workflow_session E w s)) = run_id w"
  "run_input (fst (load_workflow_session E w s)) = run_input w"
  "run_response (fst (load_workflow_session E w s)) = run_response w"
  "attrs (fst (load_workflow_session E w s)) = attrs w"
  "io (fst (load_workflow_session E w s)) = io w"
  "storage (fst (load_workflow_session E w s)) = storage w"
  using load_workflow_session_frame(1,2) [of E w s] by (simp_all add: frame_defs)

lemma load_workflow_session_memory:
  "memory w \<noteq> None \<Longrightarrow> memory (fst (load_workflow_session E w s)) \<noteq> None"
  by (auto simp: load_workflow_session_def Let_def case_prod_beta
      simp del: not_None_eq intro!: load_memory_memory split: option.splits result.splits)

lemma load_workflow_session_keeps:
  "workflow_id w \<noteq> None \<Longrightarrow> workflow_id (fst (load_workflow_session E w s)) = workflow_id w"
  "session_id w \<noteq> None \<Longrightarrow> session_id (fst (load_workflow_session E w s)) = session_id w"
  "user_id w \<noteq> None \<Longrightarrow> user_id (fst (load_workflow_session E w s)) = user_id w"
  using load_workflow_session_frame(3) [of E w s] load_ids_keeps [of w s]
  by (simp_all add: id_frame_def)


lemma read_from_storage_fields [simp]:
  "uuid_calls (fst (read_from_storage E w)) = uuid_calls w"
  "run_id (fst (read_from_storage E w)) = run_id w"
  "run_input (fst (read_from_storage E w)) = run_input w"
  "run_response (fst (read_from_storage E w)) = run_response w"
  "attrs (fst (read_from_storage E w)) = attrs w"
  by (simp_all add: read_from_storage_def Let_def case_prod_beta
      split: option.splits result.splits)

lemma read_from_storage_io:
  "io (fst (read_from_storage E w)) =
     io w @ (case storage w of
               None \<Rightarrow> []
             | Some st \<Rightarrow> (case session_id w of None \<Rightarrow> [] | Some sid \<Rightarrow> [IORead sid]))"
  by (simp add: read_from_storage_def Let_def case_prod_beta
      split: option.splits result.splits)

lemma read_from_storage_storage:
  "(storage (fst (read_from_storage E w)) = None) = (storage w = None)"
  by (simp add: read_from_storage_def Let_def case_prod_beta
      split: option.splits result.splits)

lemma read_from_storage_no_storage:
  "storage w = None \<Longrightarrow> read_from_storage E w = (w, Return (workflow_session w))"
  by (simp add: read_from_storage_def)

lemma read_from_storage_memory:
  "memory w \<noteq> None \<Longrightarrow> memory (fst (read_from_storage E w)) \<noteq> None"
proof -
  assume m: "memory w \<noteq> None"
  have "memory (fst (load_workflow_session E v s)) \<noteq> None" if "memory v \<noteq> None"
    for v :: "'a workflow" and s
    using that by (rule load_workflow_session_memory)
  then show ?thesis using m
    by (simp add: read_from_storage_def Let_def case_prod_beta
        del: not_None_eq split: option.splits result.splits)
qed

lemma read_from_storage_keeps:
  "workflow_id w \<noteq> None \<Longrightarrow> workflow_id (fst (read_from_storage E w)) = workflow_id w"
  "session_id (fst (read_from_storage E w)) = session_id w"
  "user_id w \<noteq> None \<Longrightarrow> user_id (fst (read_from_storage E w)) = user_id w"
  by (simp_all add: read_from_storage_def Let_def case_prod_beta
      load_workflow_session_keeps del: not_None_eq split: option.splits result.splits)

lemma write_to_storage_fields [simp]:
  "uuid_calls (fst (write_to_storage E w)) = uuid_calls w"
  "run_id (fst (write_to_storage E w)) = run_id w"
  "run_input (fst (write_to_storage E w)) = run_input w"
  "run_response (fst (write_to_storage E w)) = run_response w"
  "attrs (fst (write_to_storage E w)) = attrs w"
  "workflow_id (fst (write_to_storage E w)) = workflow_id w"
  "session_id (fst (write_to_storage E w)) = session_id w"
  "user_id (fst (write_to_storage E w)) = user_id w"
  "memory (fst (write_to_storage E w)) = memory w"
  "logs (fst (write_to_storage E w)) = logs w"
  by (simp_all add: write_to_storage_def Let_def case_prod_beta split: option.splits)

lemma write_to_storage_io:
  "io (fst (write_to_storage E w)) =
     io w @ (case storage w of None \<Rightarrow> [] | Some st \<Rightarrow> [IOUpsert (get_workflow_session E w)])"
  by (simp add: write_to_storage_def Let_def case_prod_beta split: option.splits)

lemma write_to_storage_storage:
  "(storage (fst (write_to_storage E w)) = None) = (storage w = None)"
  by (simp add: write_to_storage_def Let_def case_prod_beta split: option.splits)

lemma write_to_storage_cached:
  "workflow_session (fst (write_to_storage E w)) = snd (write_to_storage E w)"
  by (simp add: write_to_storage_def Let_def case_prod_beta split: option.splits)

lemma write_to_storage_no_storage:
  "storage w = None \<Longrightarrow> write_to_storage E w = (w, workflow_session w)"
  by (simp add: write_to_storage_def)


lemma read_from_storage_session_id [simp]:
  "session_id (fst (read_from_storage E w)) = session_id w"
  by (rule read_from_storage_keeps)

lemma begin_run_fields:
  "memory (begin_run E w kwargs) \<noteq> None"
  "workflow_id (begin_run E w kwargs) \<noteq> None"
  "session_id (begin_run E w kwargs) \<noteq> None"
  "run_input (begin_run E w kwargs) = Some kwargs"
  "run_response (begin_run E w kwargs) =
     Some \<lparr> rr_run_id = run_id (begin_run E w kwargs),
            rr_session_id = session_id (begin_run E w kwargs),
            rr_workflow_id = workflow_id (begin_run E w kwargs),
            rr_content = VNone \<rparr>"
  by (simp_all add: begin_run_def initialize_memory_def set_session_id_def set_workflow_id_def
      set_debug_def set_storage_mode_def new_uuid_def log_add_def Let_def
      split: option.splits)

lemma begin_run_same [simp]:
  "io (begin_run E w kwargs) = io w"
  "attrs (begin_run E w kwargs) = attrs w"
  "workflow_session (begin_run E w kwargs) = workflow_session w"
  "(storage (begin_run E w kwargs) = None) = (storage w = None)"
  by (simp_all add: begin_run_def initialize_memory_def set_session_id_def set_workflow_id_def
      set_debug_def set_storage_mode_def new_uuid_def log_add_def Let_def
      split: option.splits)

lemma begin_run_keeps:
  "workflow_id w \<noteq> None \<Longrightarrow> workflow_id (begin_run E w kwargs) = workflow_id w"
  "session_id w \<noteq> None \<Longrightarrow> session_id (begin_run E w kwargs) = session_id w"
  "memory w \<noteq> None \<Longrightarrow> memory (begin_run E w kwargs) = memory w"
  by (auto simp: begin_run_def initialize_memory_def set_session_id_def set_workflow_id_def
      set_debug_def set_storage_mode_def new_uuid_def log_add_def Let_def
      split: option.splits)

lemma begin_run_run_id:
  "\<exists>k. run_id (begin_run E w kwargs) = Some (uuid4 E k) \<and> uuid_calls w \<le> k
       \<and> uuid_calls (begin_run E w kwargs) = Suc k"
  by (auto simp: begin_run_def initialize_memory_def set_session_id_def set_workflow_id_def
      set_debug_def set_storage_mode_def new_uuid_def log_add_def Let_def
      split: option.splits)

lemma update_agents_fields [simp]:
  "io (fst (update_agents fs w)) = io w"
  "storage (fst (update_agents fs w)) = storage w"
  "memory (fst (update_agents fs w)) = memory w"
  "uuid_calls (fst (update_agents fs w)) = uuid_calls w"
  "run_id (fst (update_agents fs w)) = run_id w"
  "run_input (fst (update_agents fs w)) = run_input w"
  "run_response (fst (update_agents fs w)) = run_response w"
  "workflow_id (fst (update_agents fs w)) = workflow_id w"
  "session_id (fst (update_agents fs w)) = session_id w"
  "logs (fst (update_agents fs w)) = logs w"
  "workflow_session (fst (update_agents fs w)) = workflow_session w"
  by (induction fs w rule: update_agents.induct; simp split: option.splits pyobj.splits)+


lemma update_agent_session_ids_fields [simp]:
  "io (fst (update_agent_session_ids C w)) = io w"
  "storage (fst (update_agent_session_ids C w)) = storage w"
  "memory (fst (update_agent_session_ids C w)) = memory w"
  "uuid_calls (fst (update_agent_session_ids C w)) = uuid_calls w"
  "run_id (fst (update_agent_session_ids C w)) = run_id w"
  "run_input (fst (update_agent_session_ids C w)) = run_input w"
  "run_response (fst (update_agent_session_ids C w)) = run_response w"
  "workflow_id (fst (update_agent_session_ids C w)) = workflow_id w"
  "session_id (fst (update_agent_session_ids C w)) = session_id w"
  "logs (fst (update_agent_session_ids C w)) = logs w"
  "workflow_session (fst (update_agent_session_ids C w)) = workflow_session w"
  by (simp_all add: update_agent_session_ids_def)

lemma prepare_run_fields:
  "memory (fst (prepare_run C E w kwargs)) \<noteq> None"
  "run_input (fst (prepare_run C E w kwargs)) = Some kwargs"
  "run_response (fst (prepare_run C E w kwargs)) =
     Some \<lparr> rr_run_id = run_id (fst (prepare_run C E w kwargs)),
            rr_session_id = session_id (fst (prepare_run C E w kwargs)),
            rr_workflow_id = workflow_id (fst (prepare_run C E w kwargs)),
            rr_content = VNone \<rparr>"
  "(storage (fst (prepare_run C E w kwargs)) = None) = (storage w = None)"
  "filter is_upsert (io (fst (prepare_run C E w kwargs))) = filter is_upsert (io w)"
  "workflow_id (fst (prepare_run C E w kwargs)) \<noteq> None"
  "session_id (fst (prepare_run C E w kwargs)) \<noteq> None"
  by (simp_all add: prepare_run_def case_prod_beta read_from_storage_memory begin_run_fields
      read_from_storage_keeps read_from_storage_storage read_from_storage_io
      del: not_None_eq split: option.splits result.splits)

lemma prepare_run_keeps:
  "workflow_id w \<noteq> None \<Longrightarrow> workflow_id (fst (prepare_run C E w kwargs)) = workflow_id w"
  "session_id w \<noteq> None \<Longrightarrow> session_id (fst (prepare_run C E w kwargs)) = session_id w"
  by (simp_all add: prepare_run_def case_prod_beta begin_run_fields begin_run_keeps
      read_from_storage_keeps del: not_None_eq split: option.splits result.splits)

lemma prepare_run_run_id:
  "\<exists>k. run_id (fst (prepare_run C E w kwargs)) = Some (uuid4 E k) \<and> uuid_calls w \<le> k
       \<and> uuid_calls (fst (prepare_run C E w kwargs)) = Suc k"
  using begin_run_run_id [of E w kwargs]
  by (simp add: prepare_run_def case_prod_beta split: option.splits result.splits)

lemma prepare_run_no_storage:
  "storage w = None \<Longrightarrow>
   prepare_run C E w kwargs = update_agent_session_ids C (begin_run E w kwargs)"
  by (simp add: prepare_run_def read_from_storage_no_storage)

lemma finish_run_ok:
  "memory w = Some m \<Longrightarrow>
   snd (finish_run E w) = Return ()
   \<and> memory (fst (finish_run E w)) =
       Some (add_run m \<lparr> run_input_of = run_input w, run_response_of = run_response w \<rparr>)
   \<and> io (fst (finish_run E w)) =
       io w @ (case storage w of
                 None \<Rightarrow> []
               | Some st \<Rightarrow>
                   [IOUpsert (get_workflow_session E
                      (w\<lparr>memory := Some (add_run m
                           \<lparr> run_input_of = run_input w, run_response_of = run_response w \<rparr>)\<rparr>))])
   \<and> run_frame (fst (finish_run E w)) = run_frame w
   \<and> id_frame (fst (finish_run E w)) = id_frame w
   \<and> logs (fst (finish_run E w)) = logs w"
  by (simp add: finish_run_def Let_def write_to_storage_io frame_defs)

lemma finish_run_upserts:
  "memory w \<noteq> None \<Longrightarrow>
   upserts (fst (finish_run E w)) = upserts w + (if storage w = None then 0 else 1)"
  using finish_run_ok [of w _ E] by (auto simp: upserts_def)


section \<open>Loading a session\<close>

text \<open>
  C8. \<open>load_session(force)\<close>: when a cached record carries the current session id and
  \<open>force\<close> is false, the session id is returned and nothing else happens (no storage
  call). Otherwise, with a storage configured, \<open>read_from_storage\<close> runs first (it reads
  the record of the session id when there is one); when no record is cached after it,
  \<open>write_to_storage\<close> upserts a fresh record, and when the cache is still empty after
  the write the call raises. With no storage the session id is returned without any
  storage call.
\<close>

theorem load_session_cases:
  "(cached_session_matches w \<and> \<not> force \<longrightarrow> load_session E w force = (w, Return (session_id w)))
   \<and> (\<not> (cached_session_matches w \<and> \<not> force) \<and> storage w \<noteq> None \<longrightarrow>
        (let (w1, r) = read_from_storage E w;
             (w2, saved) = write_to_storage E w1
         in io w1 = io w @ (case session_id w of None \<Rightarrow> [] | Some sid \<Rightarrow> [IORead sid])
            \<and> (case r of
                  Raise e \<Rightarrow> load_session E w force = (w1, Raise e)
                | Return found \<Rightarrow>
                    if workflow_session w1 \<noteq> None
                    then load_session E w force = (w1, Return (session_id w))
                    else io w2 = io w1 @ [IOUpsert (get_workflow_session E w1)]
                       \<and> workflow_session w2 = saved
                       \<and> load_session E w force =
                           (w2, if saved = None then Raise SessionCreateFailed
                                else Return (session_id w)))))
   \<and> (\<not> (cached_session_matches w \<and> \<not> force) \<and> storage w = None \<longrightarrow>
        load_session E w force = (w, Return (session_id w)))"
proof (intro conjI impI)
  assume "cached_session_matches w \<and> \<not> force"
  then show "load_session E w force = (w, Return (session_id w))"
    by (auto simp: load_session_def cached_session_matches_def split: option.splits)
next
  assume a: "\<not> (cached_session_matches w \<and> \<not> force) \<and> storage w = None"
  then show "load_session E w force = (w, Return (session_id w))"
    by (auto simp: load_session_def)
next
  assume a: "\<not> (cached_session_matches w \<and> \<not> force) \<and> storage w \<noteq> None"
  obtain w1 r where rd: "read_from_storage E w = (w1, r)" by (cases "read_from_storage E w")
  obtain w2 saved where wr: "write_to_storage E w1 = (w2, saved)"
    by (cases "write_to_storage E w1")
  from rd have w1: "w1 = fst (read_from_storage E w)" by simp
  from wr have w2: "w2 = fst (write_to_storage E w1)" "saved = snd (write_to_storage E w1)"
    by simp_all
  from a have st: "storage w1 \<noteq> None" unfolding w1 by (simp add: read_from_storage_storage)
  have io1: "io w1 = io w @ (case session_id w of None \<Rightarrow> [] | Some sid \<Rightarrow> [IORead sid])"
    using a unfolding w1 by (auto simp: read_from_storage_io split: option.splits)
  have sid1: "session_id w1 = session_id w" unfolding w1 by simp
  have io2: "io w2 = io w1 @ [IOUpsert (get_workflow_session E w1)]"
    using st unfolding w2 by (auto simp: write_to_storage_io split: option.splits)
  have ws2: "workflow_session w2 = saved" unfolding w2 by (rule write_to_storage_cached)
  have sid2: "session_id w2 = session_id w" unfolding w2 using sid1 by simp
  have ls: "load_session E w force =
      (case r of
         Raise e \<Rightarrow> (w1, Raise e)
       | Return _ \<Rightarrow>
           if workflow_session w1 = None
           then (if saved = None then (w2, Raise SessionCreateFailed)
                 else (w2, Return (session_id w)))
           else (w1, Return (session_id w)))"
    using a rd wr ws2 sid1 sid2 by (auto simp: load_session_def split: result.splits)
  show "let (w1, r) = read_from_storage E w;
            (w2, saved) = write_to_storage E w1
        in io w1 = io w @ (case session_id w of None \<Rightarrow> [] | Some sid \<Rightarrow> [IORead sid])
           \<and> (case r of
                 Raise e \<Rightarrow> load_session E w force = (w1, Raise e)
               | Return found \<Rightarrow>
                   if workflow_session w1 \<noteq> None
                   then load_session E w force = (w1, Return (session_id w))
                   else io w2 = io w1 @ [IOUpsert (get_workflow_session E w1)]
                      \<and> workflow_session w2 = saved
                      \<and> load_session E w force =
                          (w2, if saved = None then Raise SessionCreateFailed
                               else Return (session_id w)))"
    using io1 io2 ws2 ls by (simp add: rd wr split: result.splits)
qed


theorem load_session_cases_witness:
  "cached_session_matches cached_instance
   \<and> load_session table_env cached_instance False = (cached_instance, Return (Some ''s1''))
   \<and> snd (load_session table_env stored_instance False) = Return (Some ''s1'')
   \<and> map is_upsert (io (fst (load_session table_env stored_instance False))) = [False, True]
   \<and> snd (load_session failing_env stored_instance False) = Raise SessionCreateFailed"
proof -
  have sid: "session_id cached_instance = Some ''s1''" "session_id stored_instance = Some ''s1''"
    and st: "storage stored_instance = Some empty_table"
    and io0: "io stored_instance = []"
    and ws: "workflow_session stored_instance = None"
    by (simp_all add: cached_instance_def stored_instance_def Workflow_init_def post_init_def
        demo_args_def)
  have c: "cached_session_matches cached_instance"
    by (simp add: cached_session_matches_def cached_instance_def session_with_state_def
        stored_instance_def Workflow_init_def post_init_def demo_args_def)
  have n: "\<not> (cached_session_matches stored_instance \<and> \<not> False) \<and> storage stored_instance \<noteq> None"
    by (simp add: cached_session_matches_def ws st)
  have r1: "read_from_storage table_env stored_instance
      = (stored_instance\<lparr>storage := Some empty_table, io := [IORead ''s1''], workflow_session := None\<rparr>,
         Return None)"
    by (simp add: read_from_storage_def st sid io0 table_env_def empty_table_def)
  have r2: "read_from_storage failing_env stored_instance
      = (stored_instance\<lparr>storage := Some empty_table, io := [IORead ''s1''], workflow_session := None\<rparr>,
         Return None)"
    by (simp add: read_from_storage_def st sid io0 table_env_def failing_env_def empty_table_def)
  have w1: "snd (write_to_storage table_env
      (stored_instance\<lparr>storage := Some empty_table, io := [IORead ''s1''], workflow_session := None\<rparr>))
      \<noteq> None"
    by (simp add: write_to_storage_def table_env_def get_workflow_session_def sid case_prod_beta
        Let_def)
  have w2: "snd (write_to_storage failing_env
      (stored_instance\<lparr>storage := Some empty_table, io := [IORead ''s1''], workflow_session := None\<rparr>))
      = None"
    by (simp add: write_to_storage_def table_env_def failing_env_def Let_def)
  show ?thesis
    using load_session_cases [of cached_instance False table_env]
      load_session_cases [of stored_instance False table_env]
      load_session_cases [of stored_instance False failing_env]
      c n w1 w2
    by (simp add: r1 r2 sid case_prod_beta io0 Let_def)
qed


section \<open>The run\<close>

lemma subclass_run_routine: "routine C = Some f \<Longrightarrow> subclass_run C kwargs w = (w, f kwargs w)"
  by (simp add: subclass_run_def)

lemma run_routine: "routine C = Some f \<Longrightarrow> run C E w kwargs = run_workflow C E w kwargs"
  by (simp add: run_def)

lemma run_workflow_after_prepare:
  "routine C = Some f \<Longrightarrow> prepare_run C E w kwargs = (w1, Return ()) \<Longrightarrow>
   run C E w kwargs =
     (case f kwargs w1 of
        Raises e \<Rightarrow> (log_add (ErrorRunFailed e) w1, Raise e)
      | Returns v \<Rightarrow> handle_value E w1 v)"
  by (simp add: run_def run_workflow_def subclass_run_def split: routine_result.splits)

lemma prepared:
  assumes "prepare_run C E w kwargs = (w1, r)"
  shows "memory w1 \<noteq> None"
    and "run_input w1 = Some kwargs"
    and "run_response w1 =
      Some \<lparr> rr_run_id = run_id w1, rr_session_id = session_id w1,
             rr_workflow_id = workflow_id w1, rr_content = VNone \<rparr>"
    and "(storage w1 = None) = (storage w = None)"
    and "filter is_upsert (io w1) = filter is_upsert (io w)"
  using prepare_run_fields [of C E w kwargs] assms by simp_all

lemma handle_value_response:
  assumes m: "memory w = Some m" and o: "run_response w = Some outer"
  shows "\<exists>w'. handle_value E w (ResResponse result) = (w', Return (RetResponse (stamp w result)))
    \<and> memory w' = Some (add_run m
         \<lparr> run_input_of = run_input w,
           run_response_of =
             Some (outer\<lparr>rr_content := (if is_str (rr_content result) then rr_content result
                                           else rr_content outer)\<rparr>) \<rparr>)
    \<and> upserts w' = upserts w + (if storage w = None then 0 else 1)"
proof (cases "is_str (rr_content result)")
  case True
  then obtain s where s: "rr_content result = VStr s" by (auto simp: is_str_def split: pyval.splits)
  let ?w1 = "w\<lparr>run_response := Some (outer\<lparr>rr_content := VStr s\<rparr>)\<rparr>"
  have m1: "memory ?w1 = Some m" using m by simp
  show ?thesis
    using finish_run_ok [OF m1, of E] finish_run_upserts [of ?w1 E] m o s True
    by (cases "finish_run E ?w1") (simp add: handle_value_def Let_def upserts_def)
next
  case False
  have "outer\<lparr>rr_content := rr_content outer\<rparr> = outer" by simp
  then show ?thesis
    using finish_run_ok [OF m, of E] finish_run_upserts [of w E] m o False
    by (cases "finish_run E w")
       (auto simp: handle_value_def Let_def upserts_def is_str_def split: pyval.splits)
qed


lemma single_response_run:
  "routine C = Some f \<Longrightarrow> prepare_run C E w kwargs = (w1, Return ()) \<Longrightarrow>
   f kwargs w1 = Returns (ResResponse result) \<Longrightarrow>
   \<exists>w2 m outer recorded.
       run C E w kwargs = (w2, Return (RetResponse (stamp w1 result)))
     \<and> rr_content (stamp w1 result) = rr_content result
     \<and> rr_run_id (stamp w1 result) = run_id w1
     \<and> rr_session_id (stamp w1 result) = session_id w1
     \<and> rr_workflow_id (stamp w1 result) = workflow_id w1
     \<and> memory w1 = Some m
     \<and> outer = \<lparr> rr_run_id = run_id w1, rr_session_id = session_id w1,
                  rr_workflow_id = workflow_id w1, rr_content = VNone \<rparr>
     \<and> run_response w1 = Some outer
     \<and> recorded = outer\<lparr>rr_content := (if is_str (rr_content result) then rr_content result
                                         else VNone)\<rparr>
     \<and> memory w2 = Some (add_run m \<lparr> run_input_of = Some kwargs, run_response_of = Some recorded \<rparr>)
     \<and> ((rr_content recorded = rr_content (stamp w1 result))
          = (is_str (rr_content result) \<or> rr_content result = VNone))"
proof -
  assume r: "routine C = Some f" and p: "prepare_run C E w kwargs = (w1, Return ())"
    and f: "f kwargs w1 = Returns (ResResponse result)"
  let ?outer = "\<lparr> rr_run_id = run_id w1, rr_session_id = session_id w1,
                  rr_workflow_id = workflow_id w1, rr_content = VNone \<rparr>"
  from prepared(1) [OF p] obtain m where m: "memory w1 = Some m" by auto
  have o: "run_response w1 = Some ?outer" by (rule prepared(3) [OF p])
  have i: "run_input w1 = Some kwargs" by (rule prepared(2) [OF p])
  from handle_value_response [OF m o, of E result] obtain w2 where
    h: "handle_value E w1 (ResResponse result) = (w2, Return (RetResponse (stamp w1 result)))"
    and m2: "memory w2 = Some (add_run m
         \<lparr> run_input_of = run_input w1,
           run_response_of =
             Some (?outer\<lparr>rr_content := (if is_str (rr_content result) then rr_content result
                                           else rr_content ?outer)\<rparr>) \<rparr>)"
    by blast
  have "run C E w kwargs = (w2, Return (RetResponse (stamp w1 result)))"
    by (simp add: run_workflow_after_prepare [OF r p] f h)
  then show ?thesis
    using m o m2 i by (auto simp: stamp_def)
qed


text \<open>
  C10 (as amended). When the subclass routine returns a single \<open>RunResponse\<close>, the
  entry point returns that response stamped with the three ids and with its content as it
  was. The run added to the memory carries the outer \<open>RunResponse\<close> built at the start of
  the run, whose content is the returned content when that is a string and stays \<open>None\<close>
  otherwise. So the recorded content equals the returned content exactly when the
  returned content is a string or \<open>None\<close>.
\<close>

theorem single_response_recorded:
  "routine C = Some f \<Longrightarrow> prepare_run C E w kwargs = (w1, Return ()) \<Longrightarrow>
   f kwargs w1 = Returns (ResResponse result) \<Longrightarrow>
   \<exists>w2 m outer recorded.
       run C E w kwargs = (w2, Return (RetResponse (stamp w1 result)))
     \<and> rr_content (stamp w1 result) = rr_content result
     \<and> rr_run_id (stamp w1 result) = run_id w1
     \<and> rr_session_id (stamp w1 result) = session_id w1
     \<and> rr_workflow_id (stamp w1 result) = workflow_id w1
     \<and> memory w1 = Some m
     \<and> outer = \<lparr> rr_run_id = run_id w1, rr_session_id = session_id w1,
                  rr_workflow_id = workflow_id w1, rr_content = VNone \<rparr>
     \<and> run_response w1 = Some outer
     \<and> recorded = outer\<lparr>rr_content := (if is_str (rr_content result) then rr_content result
                                         else VNone)\<rparr>
     \<and> memory w2 = Some (add_run m \<lparr> run_input_of = Some kwargs, run_response_of = Some recorded \<rparr>)
     \<and> ((rr_content recorded = rr_content (stamp w1 result))
          = (is_str (rr_content result) \<or> rr_content result = VNone))"
  by (rule single_response_run)

lemmas eval_defs = prepare_run_def begin_run_def initialize_memory_def set_session_id_def
  set_workflow_id_def set_debug_def set_storage_mode_def new_uuid_def log_add_def Let_def
  read_from_storage_def update_agent_session_ids_def demo_class_def demo_instance_def
  stored_instance_def Workflow_init_def post_init_def demo_args_def table_env_def
  str_or_def opt_str_def dict_or_empty_def empty_table_def

lemma stored_prepared:
  "snd (prepare_run (demo_class f) table_env stored_instance kwargs) = Return ()"
  "logs (fst (prepare_run (demo_class f) table_env stored_instance kwargs)) = []"
  "io (fst (prepare_run (demo_class f) table_env stored_instance kwargs)) = [IORead ''s1'']"
  "memory (fst (prepare_run (demo_class f) table_env stored_instance kwargs)) = Some \<lparr>runs = []\<rparr>"
  "run_id (fst (prepare_run (demo_class f) table_env stored_instance kwargs)) = Some ''ui''"
  "session_id (fst (prepare_run (demo_class f) table_env stored_instance kwargs)) = Some ''s1''"
  "workflow_id (fst (prepare_run (demo_class f) table_env stored_instance kwargs)) = Some ''u''"
  "storage (fst (prepare_run (demo_class f) table_env stored_instance kwargs)) = Some empty_table"
  by (simp_all add: eval_defs)

theorem single_response_recorded_witness:
  "routine (single_class (VInt 7)) = Some (\<lambda>kwargs w. Returns (ResResponse (response_of (VInt 7))))
   \<and> snd (prepare_run (single_class (VInt 7)) table_env stored_instance []) = Return ()
   \<and> snd (run (single_class (VInt 7)) table_env stored_instance []) =
       Return (RetResponse \<lparr> rr_run_id = Some ''ui'', rr_session_id = Some ''s1'',
                              rr_workflow_id = Some ''u'', rr_content = VInt 7 \<rparr>)
   \<and> map_option runs (memory (fst (run (single_class (VInt 7)) table_env stored_instance []))) =
       Some [\<lparr> run_input_of = Some [],
                run_response_of =
                  Some \<lparr> rr_run_id = Some ''ui'', rr_session_id = Some ''s1'',
                         rr_workflow_id = Some ''u'', rr_content = VNone \<rparr> \<rparr>]"
proof -
  let ?f = "\<lambda>(kwargs :: dict) (w :: (string \<times> workflow_session) list workflow).
              Returns (ResResponse (response_of (VInt 7)))"
  let ?C = "single_class (VInt 7)"
  let ?w1 = "fst (prepare_run ?C table_env stored_instance [])"
  have r: "routine ?C = Some ?f" by (simp add: single_class_def demo_class_def)
  have s: "snd (prepare_run ?C table_env stored_instance []) = Return ()"
    unfolding single_class_def by (rule stored_prepared)
  then have p: "prepare_run ?C table_env stored_instance [] = (?w1, Return ())"
    by (simp add: prod_eq_iff)
  have e: "?f [] ?w1 = Returns (ResResponse (response_of (VInt 7)))" by simp
  show ?thesis
    using single_response_recorded [OF r p e] r s
    by (auto simp: single_class_def stored_prepared stamp_def response_of_def add_run_def
        is_str_def)
qed

text \<open>The claim as first stated says the two contents agree only when the content is a
  string. A routine that returns a response with content \<open>None\<close> gives a recorded
  content equal to the returned one, and \<open>None\<close> is not a string.\<close>

theorem single_response_none_counterexample:
  "snd (run (single_class VNone) table_env stored_instance []) =
       Return (RetResponse \<lparr> rr_run_id = Some ''ui'', rr_session_id = Some ''s1'',
                              rr_workflow_id = Some ''u'', rr_content = VNone \<rparr>)
   \<and> map_option (map (\<lambda>r. map_option rr_content (run_response_of r)) \<circ> runs)
         (memory (fst (run (single_class VNone) table_env stored_instance []))) =
       Some [Some VNone]
   \<and> \<not> is_str VNone"
proof -
  let ?f = "\<lambda>(kwargs :: dict) (w :: (string \<times> workflow_session) list workflow).
              Returns (ResResponse (response_of VNone))"
  let ?C = "single_class VNone"
  let ?w1 = "fst (prepare_run ?C table_env stored_instance [])"
  have r: "routine ?C = Some ?f" by (simp add: single_class_def demo_class_def)
  have s: "snd (prepare_run ?C table_env stored_instance []) = Return ()"
    unfolding single_class_def by (rule stored_prepared)
  then have p: "prepare_run ?C table_env stored_instance [] = (?w1, Return ())"
    by (simp add: prod_eq_iff)
  have e: "?f [] ?w1 = Returns (ResResponse (response_of VNone))" by simp
  show ?thesis
    using single_response_run [OF r p e]
    by (auto simp: single_class_def stored_prepared stamp_def response_of_def add_run_def
        is_str_def)
qed

lemma handle_value_io:
  "storage w = None \<Longrightarrow> io (fst (handle_value E w v)) = io w"
  by (auto simp: handle_value_def finish_run_def write_to_storage_no_storage Let_def log_add_def
      split: routine_value.splits option.splits pyval.splits prod.splits result.splits)

lemma handle_value_returns:
  "memory w \<noteq> None \<Longrightarrow> run_response w \<noteq> None \<Longrightarrow> snd (handle_value E w v) \<noteq> Raise e"
  by (auto simp: handle_value_def finish_run_def Let_def log_add_def
      split: routine_value.splits option.splits pyval.splits prod.splits result.splits)

lemma subclass_run_fields [simp]:
  "io (fst (subclass_run C kwargs w)) = io w"
  "storage (fst (subclass_run C kwargs w)) = storage w"
  "memory (fst (subclass_run C kwargs w)) = memory w"
  "run_response (fst (subclass_run C kwargs w)) = run_response w"
  by (simp_all add: subclass_run_def Workflow_run_def log_add_def split: option.splits)

text \<open>
  C5. With no storage configured, \<open>read_from_storage\<close> and \<open>write_to_storage\<close> change
  nothing and return the cached record (which is unset on a constructed instance), the
  entry point makes no storage call, and it raises only what the agents' update or the
  subclass routine raises.
\<close>

theorem without_storage:
  "storage w = None \<Longrightarrow>
     read_from_storage E w = (w, Return (workflow_session w))
   \<and> write_to_storage E w = (w, workflow_session w)
   \<and> workflow_session (Workflow_init C a) = None
   \<and> io (fst (run C E w kwargs)) = io w
   \<and> (\<forall>e. snd (run C E w kwargs) = Raise e \<longrightarrow>
          snd (update_agent_session_ids C (begin_run E w kwargs)) = Raise e
        \<or> snd (subclass_run C kwargs (fst (update_agent_session_ids C (begin_run E w kwargs))))
            = Raises e)"
proof (intro conjI allI impI)
  assume st: "storage w = None"
  show "read_from_storage E w = (w, Return (workflow_session w))"
    using st by (rule read_from_storage_no_storage)
  show "write_to_storage E w = (w, workflow_session w)"
    using st by (rule write_to_storage_no_storage)
  show "workflow_session (Workflow_init C a) = None"
    by (simp add: Workflow_init_def post_init_def)
  let ?p = "update_agent_session_ids C (begin_run E w kwargs)"
  have p: "prepare_run C E w kwargs = ?p" using st by (rule prepare_run_no_storage)
  have st1: "storage (fst ?p) = None" using st by simp
  have io1: "io (fst ?p) = io w" by simp
  have st2: "storage (fst (subclass_run C kwargs (fst ?p))) = None" using st1 by simp
  show "io (fst (run C E w kwargs)) = io w"
    using io1 handle_value_io [OF st2, of E]
    by (simp add: run_def Workflow_run_def log_add_def run_workflow_def p case_prod_beta
        split: option.splits result.splits routine_result.splits)
  fix e
  assume raised: "snd (run C E w kwargs) = Raise e"
  have m: "memory (fst (subclass_run C kwargs (fst ?p))) \<noteq> None"
    using prepare_run_fields(1) [of C E w kwargs] by (simp add: p)
  have rr: "run_response (fst (subclass_run C kwargs (fst ?p))) \<noteq> None"
    using prepare_run_fields(3) [of C E w kwargs] by (simp add: p)
  show "snd ?p = Raise e \<or> snd (subclass_run C kwargs (fst ?p)) = Raises e"
    using raised handle_value_returns [OF m rr, of E _ e]
    by (auto simp: run_def run_workflow_def p case_prod_beta
        split: option.splits result.splits routine_result.splits)
qed


lemma demo_prepared:
  "snd (prepare_run (demo_class f) table_env demo_instance kwargs) = Return ()"
  "logs (fst (prepare_run (demo_class f) table_env demo_instance kwargs)) = []"
  "io (fst (prepare_run (demo_class f) table_env demo_instance kwargs)) = []"
  "memory (fst (prepare_run (demo_class f) table_env demo_instance kwargs)) = Some \<lparr>runs = []\<rparr>"
  "run_id (fst (prepare_run (demo_class f) table_env demo_instance kwargs)) = Some ''uii''"
  "session_id (fst (prepare_run (demo_class f) table_env demo_instance kwargs)) = Some ''ui''"
  "workflow_id (fst (prepare_run (demo_class f) table_env demo_instance kwargs)) = Some ''u''"
  "storage (fst (prepare_run (demo_class f) table_env demo_instance kwargs)) = None"
  by (simp_all add: eval_defs)

theorem without_storage_witness:
  "storage demo_instance = None
   \<and> read_from_storage table_env demo_instance = (demo_instance, Return None)
   \<and> write_to_storage table_env demo_instance = (demo_instance, None)
   \<and> io (fst (run abc_class table_env demo_instance [])) = []
   \<and> snd (run failing_class table_env demo_instance []) = Raise (UserException ''boom'')
   \<and> snd (subclass_run failing_class []
         (fst (update_agent_session_ids failing_class (begin_run table_env demo_instance []))))
       = Raises (UserException ''boom'')"
proof -
  let ?f = "\<lambda>(kwargs :: dict) (w :: (string \<times> workflow_session) list workflow).
              Raises (UserException ''boom'')"
  let ?w1 = "fst (prepare_run failing_class table_env demo_instance [])"
  have d: "storage demo_instance = None" "workflow_session demo_instance = None"
    "io demo_instance = []"
    by (simp_all add: demo_instance_def Workflow_init_def post_init_def demo_args_def)
  have r: "routine failing_class = Some ?f" by (simp add: failing_class_def demo_class_def)
  have "snd (prepare_run failing_class table_env demo_instance []) = Return ()"
    unfolding failing_class_def by (rule demo_prepared)
  then have p: "prepare_run failing_class table_env demo_instance [] = (?w1, Return ())"
    by (simp add: prod_eq_iff)
  have x: "snd (run failing_class table_env demo_instance []) = Raise (UserException ''boom'')"
    by (simp add: run_workflow_after_prepare [OF r p])
  show ?thesis
    using without_storage [OF d(1), of table_env abc_class demo_args "[]"]
      without_storage [OF d(1), of table_env failing_class demo_args "[]"] d x
    by (simp add: subclass_run_def r)
qed


section \<open>The streamed run\<close>

lemma consume_finished: "consume E w GenFinished = (w, [], Return ())"
  by (subst consume.simps) simp

lemma consume_nil:
  "consume E w (GenSuspended [] None) =
     (case finish_run E w of
        (w1, Raise e) \<Rightarrow> (w1, [], Raise e)
      | (w1, Return _) \<Rightarrow> (w1, [], Return ()))"
  by (subst consume.simps) (simp split: prod.splits result.splits)

lemma consume_raise: "consume E w (GenSuspended [] (Some e)) = (w, [], Raise e)"
  by (subst consume.simps) simp

lemma consume_cons:
  "consume E w (GenSuspended (x # xs) ending) =
     (case process_item w x of
        (w1, Raise e) \<Rightarrow> (w1, [], Raise e)
      | (w1, Return y) \<Rightarrow>
          (case consume E w1 (GenSuspended xs ending) of (w2, ys, r) \<Rightarrow> (w2, y # ys, r)))"
  by (subst consume.simps) (simp split: prod.splits result.splits)

lemma process_item_fields [simp]:
  "memory (fst (process_item w x)) = memory w"
  "io (fst (process_item w x)) = io w"
  "storage (fst (process_item w x)) = storage w"
  "run_input (fst (process_item w x)) = run_input w"
  "run_id (fst (process_item w x)) = run_id w"
  "session_id (fst (process_item w x)) = session_id w"
  "workflow_id (fst (process_item w x)) = workflow_id w"
  "uuid_calls (fst (process_item w x)) = uuid_calls w"
  by (cases x; simp add: log_add_def split: pyval.splits option.splits)+

lemma stamp_item_same:
  "run_id w' = run_id w \<Longrightarrow> session_id w' = session_id w \<Longrightarrow> workflow_id w' = workflow_id w
   \<Longrightarrow> stamp_item w' x = stamp_item w x"
  by (cases x) (simp_all add: stamp_def)

lemma process_item_ok:
  "run_response w = Some outer \<Longrightarrow> rr_content outer = VStr acc \<Longrightarrow>
   snd (process_item w x) = Return (stamp_item w x)
   \<and> run_response (fst (process_item w x)) = Some (outer\<lparr>rr_content := VStr (acc @ item_text x)\<rparr>)"
proof (cases x)
  case (ItemResponse r)
  assume o: "run_response w = Some outer" and c: "rr_content outer = VStr acc"
  from c have "outer\<lparr>rr_content := VStr acc\<rparr> = outer" by (cases outer) simp
  with o c ItemResponse show ?thesis
    by (simp split: pyval.splits)
next
  case (ItemOther v)
  assume o: "run_response w = Some outer" and c: "rr_content outer = VStr acc"
  from c have "outer\<lparr>rr_content := VStr acc\<rparr> = outer" by (cases outer) simp
  with o ItemOther show ?thesis by (simp add: log_add_def)
qed

lemma consume_all:
  "run_response w = Some outer \<Longrightarrow> rr_content outer = VStr acc \<Longrightarrow> memory w = Some m \<Longrightarrow>
   \<exists>w'. consume E w (GenSuspended items None) = (w', map (stamp_item w) items, Return ())
     \<and> memory w' =
         Some (add_run m
           \<lparr> run_input_of = run_input w,
             run_response_of =
               Some (outer\<lparr>rr_content := VStr (acc @ concat (map item_text items))\<rparr>) \<rparr>)
     \<and> upserts w' = upserts w + (if storage w = None then 0 else 1)"
proof (induction items arbitrary: w outer acc)
  case Nil
  from Nil.prems(2) have same: "outer\<lparr>rr_content := VStr acc\<rparr> = outer" by (cases outer) simp
  have "memory w \<noteq> None" using Nil.prems(3) by simp
  from finish_run_upserts [OF this, of E] finish_run_ok [OF Nil.prems(3), of E] Nil.prems(1) same
  show ?case
    by (cases "finish_run E w") (simp add: consume_nil)
next
  case (Cons x xs)
  obtain w1 r where p: "process_item w x = (w1, r)" by (cases "process_item w x")
  from process_item_ok [OF Cons.prems(1,2), of x] p
  have r: "r = Return (stamp_item w x)"
    and o1: "run_response w1 = Some (outer\<lparr>rr_content := VStr (acc @ item_text x)\<rparr>)"
    by simp_all
  from p have w1: "w1 = fst (process_item w x)" by simp
  have m1: "memory w1 = Some m" unfolding w1 using Cons.prems(3) by simp
  have c1: "rr_content (outer\<lparr>rr_content := VStr (acc @ item_text x)\<rparr>) = VStr (acc @ item_text x)"
    by simp
  have st: "stamp_item w1 = stamp_item w"
    unfolding w1 by (rule ext, rule stamp_item_same) simp_all
  from Cons.IH [OF o1 c1 m1] obtain w' where
    c: "consume E w1 (GenSuspended xs None) = (w', map (stamp_item w1) xs, Return ())"
    and m': "memory w' =
         Some (add_run m
           \<lparr> run_input_of = run_input w1,
             run_response_of =
               Some (outer\<lparr>rr_content := VStr (acc @ item_text x),
                           rr_content := VStr ((acc @ item_text x) @ concat (map item_text xs))\<rparr>) \<rparr>)"
    and u': "upserts w' = upserts w1 + (if storage w1 = None then 0 else 1)"
    by blast
  have f: "run_input w1 = run_input w" "storage w1 = storage w" "upserts w1 = upserts w"
    unfolding w1 by (simp_all add: upserts_def)
  show ?case
    using c m' u' by (simp add: consume_cons p r st f)
qed

lemma take_next_lazy:
  "run_response w = Some outer \<Longrightarrow> rr_content outer = VStr acc \<Longrightarrow> n \<le> length items \<Longrightarrow>
   \<exists>w'. take_next E n w (GenSuspended items ending) =
           (w', GenSuspended (drop n items) ending, map (stamp_item w) (take n items))
     \<and> memory w' = memory w \<and> io w' = io w"
proof (induction n arbitrary: w outer acc items)
  case 0
  then show ?case by simp
next
  case (Suc n)
  then obtain x xs where items: "items = x # xs" by (cases items) auto
  obtain w1 r where p: "process_item w x = (w1, r)" by (cases "process_item w x")
  from process_item_ok [OF Suc.prems(1,2), of x] p
  have r: "r = Return (stamp_item w x)"
    and o1: "run_response w1 = Some (outer\<lparr>rr_content := VStr (acc @ item_text x)\<rparr>)"
    by simp_all
  from p have w1: "w1 = fst (process_item w x)" by simp
  have c1: "rr_content (outer\<lparr>rr_content := VStr (acc @ item_text x)\<rparr>) = VStr (acc @ item_text x)"
    by simp
  have st: "stamp_item w1 = stamp_item w"
    unfolding w1 by (rule ext, rule stamp_item_same) simp_all
  have n: "n \<le> length xs" using Suc.prems(3) items by simp
  from Suc.IH [OF o1 c1 n] obtain w' where
    t: "take_next E n w1 (GenSuspended xs ending) =
           (w', GenSuspended (drop n xs) ending, map (stamp_item w1) (take n xs))"
    and f: "memory w' = memory w1" "io w' = io w1"
    by blast
  have g: "memory w1 = memory w" "io w1 = io w" unfolding w1 by simp_all
  show ?case
    using t f g by (simp add: items p r st)
qed

text \<open>When the underlying iterator raises after some items, the consumer has received
  those items and then gets that exception; the statements after the loop have not run, so
  the memory and the storage are as they were.\<close>

lemma process_item_logs [simp]:
  "logs (fst (process_item w x)) = logs w @ yield_warning x"
  by (cases x) (simp_all add: log_add_def split: pyval.splits option.splits)

lemma consume_failing_iterator:
  "run_response w = Some outer \<Longrightarrow> rr_content outer = VStr acc \<Longrightarrow>
   \<exists>w'. consume E w (GenSuspended items (Some e)) = (w', map (stamp_item w) items, Raise e)
     \<and> memory w' = memory w \<and> io w' = io w
     \<and> logs w' = logs w @ concat (map yield_warning items)"
proof (induction items arbitrary: w outer acc)
  case Nil
  show ?case by (simp add: consume_raise)
next
  case (Cons x xs)
  obtain w1 r where p: "process_item w x = (w1, r)" by (cases "process_item w x")
  from process_item_ok [OF Cons.prems(1,2), of x] p
  have r: "r = Return (stamp_item w x)"
    and o1: "run_response w1 = Some (outer\<lparr>rr_content := VStr (acc @ item_text x)\<rparr>)"
    by simp_all
  from p have w1: "w1 = fst (process_item w x)" by simp
  have c1: "rr_content (outer\<lparr>rr_content := VStr (acc @ item_text x)\<rparr>) = VStr (acc @ item_text x)"
    by simp
  have st: "stamp_item w1 = stamp_item w"
    unfolding w1 by (rule ext, rule stamp_item_same) simp_all
  from Cons.IH [OF o1 c1] obtain w' where
    c: "consume E w1 (GenSuspended xs (Some e)) = (w', map (stamp_item w1) xs, Raise e)"
    and f: "memory w' = memory w1" "io w' = io w1"
      "logs w' = logs w1 @ concat (map yield_warning xs)"
    by blast
  have g: "memory w1 = memory w" "io w1 = io w" "logs w1 = logs w @ yield_warning x"
    unfolding w1 by simp_all
  show ?case
    using c f g by (simp add: consume_cons p r st)
qed

lemma handle_value_iterator:
  "run_response w = Some outer \<Longrightarrow>
   handle_value E w (ResIterator items ending) =
     (w\<lparr>run_response := Some (outer\<lparr>rr_content := VStr []\<rparr>)\<rparr>,
      Return (RetGenerator (GenSuspended items ending)))"
  by (simp add: handle_value_def)

lemma streamed_run:
  "routine C = Some f \<Longrightarrow> prepare_run C E w kwargs = (w1, Return ()) \<Longrightarrow>
   f kwargs w1 = Returns (ResIterator items None) \<Longrightarrow>
   \<exists>w2 w3 m outer.
       run C E w kwargs = (w2, Return (RetGenerator (GenSuspended items None)))
     \<and> w2 = w1\<lparr>run_response :=
                  Some \<lparr> rr_run_id = run_id w1, rr_session_id = session_id w1,
                         rr_workflow_id = workflow_id w1, rr_content = VStr [] \<rparr>\<rparr>
     \<and> consume E w2 (GenSuspended items None) = (w3, map (stamp_item w1) items, Return ())
     \<and> memory w2 = Some m
     \<and> outer = \<lparr> rr_run_id = run_id w1, rr_session_id = session_id w1,
                  rr_workflow_id = workflow_id w1,
                  rr_content = VStr (concat (map item_text items)) \<rparr>
     \<and> memory w3 = Some (add_run m \<lparr> run_input_of = Some kwargs, run_response_of = Some outer \<rparr>)
     \<and> upserts w2 = upserts w
     \<and> upserts w3 = upserts w2 + (if storage w = None then 0 else 1)
     \<and> (\<forall>n \<le> length items.
          \<exists>wn. take_next E n w2 (GenSuspended items None) =
                 (wn, GenSuspended (drop n items) None, map (stamp_item w1) (take n items))
             \<and> memory wn = memory w2 \<and> io wn = io w2)"
proof -
  assume r: "routine C = Some f" and p: "prepare_run C E w kwargs = (w1, Return ())"
    and f: "f kwargs w1 = Returns (ResIterator items None)"
  let ?o = "\<lparr> rr_run_id = run_id w1, rr_session_id = session_id w1,
              rr_workflow_id = workflow_id w1, rr_content = VNone \<rparr>"
  let ?w2 = "w1\<lparr>run_response := Some (?o\<lparr>rr_content := VStr []\<rparr>)\<rparr>"
  from prepared(1) [OF p] obtain m where m: "memory w1 = Some m" by auto
  have o: "run_response w1 = Some ?o" by (rule prepared(3) [OF p])
  have i: "run_input w1 = Some kwargs" by (rule prepared(2) [OF p])
  have run: "run C E w kwargs = (?w2, Return (RetGenerator (GenSuspended items None)))"
    by (simp add: run_workflow_after_prepare [OF r p] f handle_value_iterator [OF o])
  have o2: "run_response ?w2 = Some (?o\<lparr>rr_content := VStr []\<rparr>)" by simp
  have c2: "rr_content (?o\<lparr>rr_content := VStr []\<rparr>) = VStr []" by simp
  have m2: "memory ?w2 = Some m" using m by simp
  have st: "stamp_item ?w2 = stamp_item w1"
    by (rule ext, rule stamp_item_same) simp_all
  from consume_all [OF o2 c2 m2, of E items] obtain w3 where
    c: "consume E ?w2 (GenSuspended items None) = (w3, map (stamp_item ?w2) items, Return ())"
    and m3: "memory w3 =
         Some (add_run m
           \<lparr> run_input_of = run_input ?w2,
             run_response_of =
               Some (?o\<lparr>rr_content := VStr [],
                        rr_content := VStr ([] @ concat (map item_text items))\<rparr>) \<rparr>)"
    and u3: "upserts w3 = upserts ?w2 + (if storage ?w2 = None then 0 else 1)"
    by blast
  have u2: "upserts ?w2 = upserts w"
    using prepared(5) [OF p] by (simp add: upserts_def)
  have s2: "(storage ?w2 = None) = (storage w = None)" using prepared(4) [OF p] by simp
  have lazy: "\<exists>wn. take_next E n ?w2 (GenSuspended items None) =
                 (wn, GenSuspended (drop n items) None, map (stamp_item w1) (take n items))
             \<and> memory wn = memory ?w2 \<and> io wn = io ?w2" if "n \<le> length items" for n
    using take_next_lazy [OF o2 c2 that, of E] unfolding st .
  show ?thesis
    apply (rule exI [of _ ?w2], rule exI [of _ w3], rule exI [of _ m])
    using run c m2 m3 u2 u3 s2 lazy i unfolding st
    by simp
qed

text \<open>
  C1 (as amended). When the subclass routine returns an iterator (one that ends after
  its items), the entry point returns an iterator over the same items. Consuming it to the
  end yields every item in order, a
  \<open>RunResponse\<close> item stamped with the run id, session id and workflow id of the run and
  any other item as it is; it then appends exactly one run to the memory, whose response
  carries the three ids and, as content, the concatenation in order of the string contents
  of the \<open>RunResponse\<close> items; and it upserts the session exactly once when a storage is
  configured, and not at all when none is. Nothing is written before the end: after any
  number of items short of exhaustion the memory and the storage calls are as they were
  when the entry point returned.
\<close>

theorem streamed_run_recorded:
  "routine C = Some f \<Longrightarrow> prepare_run C E w kwargs = (w1, Return ()) \<Longrightarrow>
   f kwargs w1 = Returns (ResIterator items None) \<Longrightarrow>
   \<exists>w2 w3 m outer.
       run C E w kwargs = (w2, Return (RetGenerator (GenSuspended items None)))
     \<and> w2 = w1\<lparr>run_response :=
                  Some \<lparr> rr_run_id = run_id w1, rr_session_id = session_id w1,
                         rr_workflow_id = workflow_id w1, rr_content = VStr [] \<rparr>\<rparr>
     \<and> consume E w2 (GenSuspended items None) = (w3, map (stamp_item w1) items, Return ())
     \<and> memory w2 = Some m
     \<and> outer = \<lparr> rr_run_id = run_id w1, rr_session_id = session_id w1,
                  rr_workflow_id = workflow_id w1,
                  rr_content = VStr (concat (map item_text items)) \<rparr>
     \<and> memory w3 = Some (add_run m \<lparr> run_input_of = Some kwargs, run_response_of = Some outer \<rparr>)
     \<and> upserts w2 = upserts w
     \<and> upserts w3 = upserts w2 + (if storage w = None then 0 else 1)
     \<and> (\<forall>n \<le> length items.
          \<exists>wn. take_next E n w2 (GenSuspended items None) =
                 (wn, GenSuspended (drop n items) None, map (stamp_item w1) (take n items))
             \<and> memory wn = memory w2 \<and> io wn = io w2)"
  by (rule streamed_run)

theorem streamed_run_recorded_witness:
  "routine abc_class = Some abc_routine
   \<and> snd (prepare_run abc_class table_env stored_instance []) = Return ()
   \<and> snd (run abc_class table_env stored_instance []) = Return (RetGenerator (GenSuspended abc_items None))
   \<and> snd (consume table_env (fst (run abc_class table_env stored_instance []))
             (GenSuspended abc_items None)) =
       ([ItemResponse \<lparr> rr_run_id = Some ''ui'', rr_session_id = Some ''s1'',
                         rr_workflow_id = Some ''u'', rr_content = VStr ''a'' \<rparr>,
         ItemResponse \<lparr> rr_run_id = Some ''ui'', rr_session_id = Some ''s1'',
                         rr_workflow_id = Some ''u'', rr_content = VStr ''b'' \<rparr>,
         ItemResponse \<lparr> rr_run_id = Some ''ui'', rr_session_id = Some ''s1'',
                         rr_workflow_id = Some ''u'', rr_content = VStr ''c'' \<rparr>],
        Return ())
   \<and> map_option runs
         (memory (fst (consume table_env (fst (run abc_class table_env stored_instance []))
                         (GenSuspended abc_items None)))) =
       Some [\<lparr> run_input_of = Some [],
                run_response_of =
                  Some \<lparr> rr_run_id = Some ''ui'', rr_session_id = Some ''s1'',
                         rr_workflow_id = Some ''u'', rr_content = VStr ''abc'' \<rparr> \<rparr>]
   \<and> upserts (fst (run abc_class table_env stored_instance [])) = 0
   \<and> upserts (fst (consume table_env (fst (run abc_class table_env stored_instance []))
                      (GenSuspended abc_items None))) = 1
   \<and> fst (snd (take_next table_env 2 (fst (run abc_class table_env stored_instance []))
                  (GenSuspended abc_items None))) =
       GenSuspended [ItemResponse (response_of (VStr ''c''))] None
   \<and> map_option runs
         (memory (fst (take_next table_env 2 (fst (run abc_class table_env stored_instance []))
                         (GenSuspended abc_items None)))) = Some []
   \<and> upserts (fst (take_next table_env 2 (fst (run abc_class table_env stored_instance []))
                      (GenSuspended abc_items None))) = 0"
proof -
  let ?w1 = "fst (prepare_run abc_class table_env stored_instance [])"
  have r: "routine abc_class = Some abc_routine" by (simp add: abc_class_def demo_class_def)
  have s: "snd (prepare_run abc_class table_env stored_instance []) = Return ()"
    unfolding abc_class_def by (rule stored_prepared)
  then have p: "prepare_run abc_class table_env stored_instance [] = (?w1, Return ())"
    by (simp add: prod_eq_iff)
  have e: "abc_routine [] ?w1 = Returns (ResIterator abc_items None)" by (simp add: abc_routine_def)
  have i: "upserts stored_instance = 0" "storage stored_instance \<noteq> None"
    by (simp_all add: upserts_def eval_defs)
  from streamed_run_recorded [OF r p e] obtain w2 w3 m outer where
    run: "run abc_class table_env stored_instance [] = (w2, Return (RetGenerator (GenSuspended abc_items None)))"
    and c: "consume table_env w2 (GenSuspended abc_items None) = (w3, map (stamp_item ?w1) abc_items, Return ())"
    and w2: "w2 = ?w1\<lparr>run_response :=
                  Some \<lparr> rr_run_id = run_id ?w1, rr_session_id = session_id ?w1,
                         rr_workflow_id = workflow_id ?w1, rr_content = VStr [] \<rparr>\<rparr>"
    and m: "memory w2 = Some m"
    and outer: "outer = \<lparr> rr_run_id = run_id ?w1, rr_session_id = session_id ?w1,
                  rr_workflow_id = workflow_id ?w1,
                  rr_content = VStr (concat (map item_text abc_items)) \<rparr>"
    and m3: "memory w3 = Some (add_run m \<lparr> run_input_of = Some [], run_response_of = Some outer \<rparr>)"
    and u2: "upserts w2 = upserts stored_instance"
    and u3: "upserts w3 = upserts w2 + (if storage stored_instance = None then 0 else 1)"
    and lz: "\<forall>n \<le> length abc_items.
          \<exists>wn. take_next table_env n w2 (GenSuspended abc_items None) =
                 (wn, GenSuspended (drop n abc_items) None, map (stamp_item ?w1) (take n abc_items))
             \<and> memory wn = memory w2 \<and> io wn = io w2"
    by blast
  have m0: "m = \<lparr>runs = []\<rparr>"
    using m unfolding w2 by (simp add: abc_class_def stored_prepared)
  have "(2::nat) \<le> length abc_items" by (simp add: abc_items_def)
  with lz obtain wn where
    t: "take_next table_env 2 w2 (GenSuspended abc_items None) =
          (wn, GenSuspended (drop 2 abc_items) None, map (stamp_item ?w1) (take 2 abc_items))"
    and tm: "memory wn = memory w2" and tio: "io wn = io w2"
    by blast
  have tu: "upserts wn = 0" using tio u2 i by (simp add: upserts_def)
  show ?thesis
    using r s run c m3 u2 u3 i t tm tu m
    by (simp add: m0 outer abc_class_def stored_prepared abc_items_def stamp_def response_of_def
        add_run_def)
qed

text \<open>The claim as first stated has the session written to storage exactly once for
  every workflow. On an instance with no storage the three items are received, the
  iteration ends normally, and no upsert has been made.\<close>

theorem streamed_run_without_storage_counterexample:
  "snd (run abc_class table_env demo_instance []) = Return (RetGenerator (GenSuspended abc_items None))
   \<and> snd (snd (consume table_env (fst (run abc_class table_env demo_instance []))
                  (GenSuspended abc_items None))) = Return ()
   \<and> length (fst (snd (consume table_env (fst (run abc_class table_env demo_instance []))
                          (GenSuspended abc_items None)))) = 3
   \<and> upserts (fst (consume table_env (fst (run abc_class table_env demo_instance []))
                      (GenSuspended abc_items None))) = 0"
proof -
  let ?w1 = "fst (prepare_run abc_class table_env demo_instance [])"
  have r: "routine abc_class = Some abc_routine" by (simp add: abc_class_def demo_class_def)
  have s: "snd (prepare_run abc_class table_env demo_instance []) = Return ()"
    unfolding abc_class_def by (rule demo_prepared)
  then have p: "prepare_run abc_class table_env demo_instance [] = (?w1, Return ())"
    by (simp add: prod_eq_iff)
  have e: "abc_routine [] ?w1 = Returns (ResIterator abc_items None)" by (simp add: abc_routine_def)
  have i: "upserts demo_instance = 0" "storage demo_instance = None"
    by (simp_all add: upserts_def eval_defs)
  from streamed_run [OF r p e] obtain w2 w3 where
    run: "run abc_class table_env demo_instance [] = (w2, Return (RetGenerator (GenSuspended abc_items None)))"
    and c: "consume table_env w2 (GenSuspended abc_items None) = (w3, map (stamp_item ?w1) abc_items, Return ())"
    and u2: "upserts w2 = upserts demo_instance"
    and u3: "upserts w3 = upserts w2 + (if storage demo_instance = None then 0 else 1)"
    by blast
  show ?thesis
    using run c u2 u3 i by (simp add: abc_items_def)
qed


section \<open>A routine that raises\<close>

lemma failed_call:
  "routine C = Some f \<Longrightarrow> prepare_run C E w kwargs = (w1, Return ()) \<Longrightarrow>
   f kwargs w1 = Raises e \<Longrightarrow>
     run C E w kwargs = (w1\<lparr>logs := logs w1 @ [ErrorRunFailed e]\<rparr>, Raise e)
   \<and> memory (fst (run C E w kwargs)) = memory w1
   \<and> filter is_upsert (io (fst (run C E w kwargs))) = filter is_upsert (io w)"
  by (simp add: run_workflow_after_prepare log_add_def prepared(5))

text \<open>A generator routine raises while its iterator is consumed, after the entry point
  has returned: the \<open>try\<close> around the call is over by then, and the loop of the
  returned iterator has no handler.\<close>

lemma failed_iteration:
  "routine C = Some f \<Longrightarrow> prepare_run C E w kwargs = (w1, Return ()) \<Longrightarrow>
   f kwargs w1 = Returns (ResIterator items (Some e)) \<Longrightarrow>
   \<exists>w2 w3.
       run C E w kwargs = (w2, Return (RetGenerator (GenSuspended items (Some e))))
     \<and> logs w2 = logs w1
     \<and> consume E w2 (GenSuspended items (Some e)) = (w3, map (stamp_item w1) items, Raise e)
     \<and> memory w3 = memory w1
     \<and> filter is_upsert (io w3) = filter is_upsert (io w)
     \<and> logs w3 = logs w1 @ concat (map yield_warning items)"
proof -
  assume r: "routine C = Some f" and p: "prepare_run C E w kwargs = (w1, Return ())"
    and f: "f kwargs w1 = Returns (ResIterator items (Some e))"
  let ?o = "\<lparr> rr_run_id = run_id w1, rr_session_id = session_id w1,
              rr_workflow_id = workflow_id w1, rr_content = VNone \<rparr>"
  let ?w2 = "w1\<lparr>run_response := Some (?o\<lparr>rr_content := VStr []\<rparr>)\<rparr>"
  have o: "run_response w1 = Some ?o" by (rule prepared(3) [OF p])
  have run: "run C E w kwargs = (?w2, Return (RetGenerator (GenSuspended items (Some e))))"
    by (simp add: run_workflow_after_prepare [OF r p] f handle_value_iterator [OF o])
  have o2: "run_response ?w2 = Some (?o\<lparr>rr_content := VStr []\<rparr>)" by simp
  have c2: "rr_content (?o\<lparr>rr_content := VStr []\<rparr>) = VStr []" by simp
  have st: "stamp_item ?w2 = stamp_item w1"
    by (rule ext, rule stamp_item_same) simp_all
  from consume_failing_iterator [OF o2 c2, of E items e] obtain w3 where
    c: "consume E ?w2 (GenSuspended items (Some e)) = (w3, map (stamp_item ?w2) items, Raise e)"
    and m3: "memory w3 = memory ?w2" and i3: "io w3 = io ?w2"
    and l3: "logs w3 = logs ?w2 @ concat (map yield_warning items)"
    by blast
  show ?thesis
    apply (rule exI [of _ ?w2], rule exI [of _ w3])
    using run c m3 i3 l3 prepared(5) [OF p] unfolding st
    by simp
qed

text \<open>
  C9 (as amended). When the call of the subclass routine raises, the entry point logs
  that exception and raises the same exception; the instance is left as it was when the
  routine was invoked apart from the log line, so no run is added to the memory, and no
  upsert reaches the storage during the call. When the routine is a generator that
  raises while the returned iterator is consumed, the consumer receives the items yielded
  so far and then that same exception; no run is added to the memory and no upsert
  reaches the storage, and the workflow logs nothing about the exception (the log only
  gains the warnings for items that are not a \<open>RunResponse\<close>).
\<close>

theorem routine_exception_propagates:
  "routine C = Some f \<Longrightarrow> prepare_run C E w kwargs = (w1, Return ()) \<Longrightarrow>
   (f kwargs w1 = Raises e \<longrightarrow>
        run C E w kwargs = (w1\<lparr>logs := logs w1 @ [ErrorRunFailed e]\<rparr>, Raise e)
      \<and> memory (fst (run C E w kwargs)) = memory w1
      \<and> filter is_upsert (io (fst (run C E w kwargs))) = filter is_upsert (io w))
   \<and> (f kwargs w1 = Returns (ResIterator items (Some e)) \<longrightarrow>
        (\<exists>w2 w3.
            run C E w kwargs = (w2, Return (RetGenerator (GenSuspended items (Some e))))
          \<and> logs w2 = logs w1
          \<and> consume E w2 (GenSuspended items (Some e)) =
              (w3, map (stamp_item w1) items, Raise e)
          \<and> memory w3 = memory w1
          \<and> filter is_upsert (io w3) = filter is_upsert (io w)
          \<and> logs w3 = logs w1 @ concat (map yield_warning items)))"
  using failed_call [of C f E w kwargs w1 e] failed_iteration [of C f E w kwargs w1 items e]
  by blast

theorem routine_exception_propagates_witness:
  "routine failing_class = Some (\<lambda>kwargs w. Raises (UserException ''boom''))
   \<and> snd (prepare_run failing_class table_env stored_instance []) = Return ()
   \<and> snd (run failing_class table_env stored_instance []) = Raise (UserException ''boom'')
   \<and> logs (fst (run failing_class table_env stored_instance []))
       = [ErrorRunFailed (UserException ''boom'')]
   \<and> map_option runs (memory (fst (run failing_class table_env stored_instance []))) = Some []
   \<and> filter is_upsert (io (fst (run failing_class table_env stored_instance []))) = []
   \<and> snd (prepare_run failing_iterator_class table_env stored_instance []) = Return ()
   \<and> snd (run failing_iterator_class table_env stored_instance []) =
       Return (RetGenerator (GenSuspended [ItemResponse (response_of (VStr ''a''))]
                               (Some (UserException ''boom''))))
   \<and> snd (consume table_env (fst (run failing_iterator_class table_env stored_instance []))
             (GenSuspended [ItemResponse (response_of (VStr ''a''))]
                (Some (UserException ''boom'')))) =
       ([ItemResponse \<lparr> rr_run_id = Some ''ui'', rr_session_id = Some ''s1'',
                         rr_workflow_id = Some ''u'', rr_content = VStr ''a'' \<rparr>],
        Raise (UserException ''boom''))
   \<and> map_option runs
         (memory (fst (consume table_env
                         (fst (run failing_iterator_class table_env stored_instance []))
                         (GenSuspended [ItemResponse (response_of (VStr ''a''))]
                            (Some (UserException ''boom'')))))) = Some []
   \<and> filter is_upsert
         (io (fst (consume table_env
                     (fst (run failing_iterator_class table_env stored_instance []))
                     (GenSuspended [ItemResponse (response_of (VStr ''a''))]
                        (Some (UserException ''boom'')))))) = []"
proof -
  let ?f = "\<lambda>(kwargs :: dict) (w :: (string \<times> workflow_session) list workflow).
              Raises (UserException ''boom'')"
  let ?items = "[ItemResponse (response_of (VStr ''a''))]"
  let ?g = "\<lambda>(kwargs :: dict) (w :: (string \<times> workflow_session) list workflow).
              Returns (ResIterator ?items (Some (UserException ''boom'')))"
  let ?w1 = "fst (prepare_run failing_class table_env stored_instance [])"
  let ?v1 = "fst (prepare_run failing_iterator_class table_env stored_instance [])"
  have r: "routine failing_class = Some ?f" by (simp add: failing_class_def demo_class_def)
  have s: "snd (prepare_run failing_class table_env stored_instance []) = Return ()"
    unfolding failing_class_def by (rule stored_prepared)
  then have p: "prepare_run failing_class table_env stored_instance [] = (?w1, Return ())"
    by (simp add: prod_eq_iff)
  have e: "?f [] ?w1 = Raises (UserException ''boom'')" by simp
  have r': "routine failing_iterator_class = Some ?g"
    by (simp add: failing_iterator_class_def demo_class_def)
  have s': "snd (prepare_run failing_iterator_class table_env stored_instance []) = Return ()"
    unfolding failing_iterator_class_def by (rule stored_prepared)
  then have p': "prepare_run failing_iterator_class table_env stored_instance [] = (?v1, Return ())"
    by (simp add: prod_eq_iff)
  have e': "?g [] ?v1 = Returns (ResIterator ?items (Some (UserException ''boom'')))" by simp
  have i: "io stored_instance = []" by (simp add: eval_defs)
  from routine_exception_propagates [OF r p, of "UserException ''boom''" "[]"] e
  have call: "run failing_class table_env stored_instance [] =
        (?w1\<lparr>logs := logs ?w1 @ [ErrorRunFailed (UserException ''boom'')]\<rparr>,
         Raise (UserException ''boom''))"
    "filter is_upsert (io (fst (run failing_class table_env stored_instance [])))
       = filter is_upsert (io stored_instance)"
    by blast+
  from routine_exception_propagates [OF r' p', of "UserException ''boom''" ?items] e'
  obtain w2 w3 where
    run: "run failing_iterator_class table_env stored_instance [] =
        (w2, Return (RetGenerator (GenSuspended ?items (Some (UserException ''boom'')))))"
    and c: "consume table_env w2 (GenSuspended ?items (Some (UserException ''boom''))) =
        (w3, map (stamp_item ?v1) ?items, Raise (UserException ''boom''))"
    and m3: "memory w3 = memory ?v1"
    and u3: "filter is_upsert (io w3) = filter is_upsert (io stored_instance)"
    by blast
  show ?thesis
    using r s s' call run c m3 u3 i
    by (simp add: failing_class_def failing_iterator_class_def stored_prepared stamp_def
        response_of_def)
qed

text \<open>The claim as first stated has the exception logged whenever the subclass routine
  raises. A generator routine that yields \<open>a\<close> and then raises: the entry point returns
  the iterator, the consumer gets the exception, and the log is empty.\<close>

theorem unlogged_iterator_exception_counterexample:
  "snd (run failing_iterator_class table_env stored_instance []) =
       Return (RetGenerator (GenSuspended [ItemResponse (response_of (VStr ''a''))]
                               (Some (UserException ''boom''))))
   \<and> snd (snd (consume table_env (fst (run failing_iterator_class table_env stored_instance []))
                  (GenSuspended [ItemResponse (response_of (VStr ''a''))]
                     (Some (UserException ''boom''))))) = Raise (UserException ''boom'')
   \<and> logs (fst (consume table_env (fst (run failing_iterator_class table_env stored_instance []))
                   (GenSuspended [ItemResponse (response_of (VStr ''a''))]
                      (Some (UserException ''boom''))))) = []"
proof -
  let ?items = "[ItemResponse (response_of (VStr ''a''))]"
  let ?g = "\<lambda>(kwargs :: dict) (w :: (string \<times> workflow_session) list workflow).
              Returns (ResIterator ?items (Some (UserException ''boom'')))"
  let ?v1 = "fst (prepare_run failing_iterator_class table_env stored_instance [])"
  have r': "routine failing_iterator_class = Some ?g"
    by (simp add: failing_iterator_class_def demo_class_def)
  have "snd (prepare_run failing_iterator_class table_env stored_instance []) = Return ()"
    unfolding failing_iterator_class_def by (rule stored_prepared)
  then have p': "prepare_run failing_iterator_class table_env stored_instance [] = (?v1, Return ())"
    by (simp add: prod_eq_iff)
  have e': "?g [] ?v1 = Returns (ResIterator ?items (Some (UserException ''boom'')))" by simp
  from failed_iteration [OF r' p' e'] obtain w2 w3 where
    run: "run failing_iterator_class table_env stored_instance [] =
        (w2, Return (RetGenerator (GenSuspended ?items (Some (UserException ''boom'')))))"
    and c: "consume table_env w2 (GenSuspended ?items (Some (UserException ''boom''))) =
        (w3, map (stamp_item ?v1) ?items, Raise (UserException ''boom''))"
    and l3: "logs w3 = logs ?v1 @ concat (map yield_warning ?items)"
    by blast
  show ?thesis
    using run c l3 by (simp add: failing_iterator_class_def stored_prepared)
qed


section \<open>Identifiers across calls\<close>

lemma finish_run_fields [simp]:
  "run_id (fst (finish_run E w)) = run_id w"
  "uuid_calls (fst (finish_run E w)) = uuid_calls w"
  "workflow_id (fst (finish_run E w)) = workflow_id w"
  "session_id (fst (finish_run E w)) = session_id w"
  by (simp_all add: finish_run_def Let_def split: option.splits)

lemma handle_value_fields [simp]:
  "run_id (fst (handle_value E w v)) = run_id w"
  "uuid_calls (fst (handle_value E w v)) = uuid_calls w"
  "workflow_id (fst (handle_value E w v)) = workflow_id w"
  "session_id (fst (handle_value E w v)) = session_id w"
  by (auto simp: handle_value_def Let_def log_add_def case_prod_beta
      split: routine_value.splits option.splits pyval.splits result.splits)

lemma consume_items_fields:
  "run_id (fst (consume E w (GenSuspended items ending))) = run_id w
   \<and> uuid_calls (fst (consume E w (GenSuspended items ending))) = uuid_calls w
   \<and> workflow_id (fst (consume E w (GenSuspended items ending))) = workflow_id w
   \<and> session_id (fst (consume E w (GenSuspended items ending))) = session_id w"
proof (induction items arbitrary: w)
  case Nil
  show ?case
    by (cases ending) (simp_all add: consume_nil consume_raise case_prod_beta split: result.splits)
next
  case (Cons x xs)
  show ?case
    using Cons.IH [of "fst (process_item w x)"]
    by (simp add: consume_cons case_prod_beta split: result.splits)
qed

lemma consume_fields [simp]:
  "run_id (fst (consume E w g)) = run_id w"
  "uuid_calls (fst (consume E w g)) = uuid_calls w"
  "workflow_id (fst (consume E w g)) = workflow_id w"
  "session_id (fst (consume E w g)) = session_id w"
  using consume_items_fields [of E w] by (cases g; simp add: consume_finished)+

lemma subclass_run_ids [simp]:
  "run_id (fst (subclass_run C kwargs w)) = run_id w"
  "uuid_calls (fst (subclass_run C kwargs w)) = uuid_calls w"
  "workflow_id (fst (subclass_run C kwargs w)) = workflow_id w"
  "session_id (fst (subclass_run C kwargs w)) = session_id w"
  by (simp_all add: subclass_run_def Workflow_run_def log_add_def split: option.splits)

lemma run_workflow_ids:
  "run_id (fst (run_workflow C E w kwargs)) = run_id (fst (prepare_run C E w kwargs))"
  "uuid_calls (fst (run_workflow C E w kwargs)) = uuid_calls (fst (prepare_run C E w kwargs))"
  "workflow_id (fst (run_workflow C E w kwargs)) = workflow_id (fst (prepare_run C E w kwargs))"
  "session_id (fst (run_workflow C E w kwargs)) = session_id (fst (prepare_run C E w kwargs))"
  by (simp_all add: run_workflow_def case_prod_beta log_add_def
      split: result.splits routine_result.splits)

lemma call_once_ids:
  assumes r: "routine C = Some f"
  shows "\<exists>k. run_id (call_once C E w kwargs drain) = Some (uuid4 E k) \<and> uuid_calls w \<le> k
           \<and> uuid_calls (call_once C E w kwargs drain) = Suc k"
    and "workflow_id (call_once C E w kwargs drain) \<noteq> None"
    and "session_id (call_once C E w kwargs drain) \<noteq> None"
    and "workflow_id w \<noteq> None \<Longrightarrow> workflow_id (call_once C E w kwargs drain) = workflow_id w"
    and "session_id w \<noteq> None \<Longrightarrow> session_id (call_once C E w kwargs drain) = session_id w"
proof -
  let ?w2 = "call_once C E w kwargs drain"
  have f: "run_id ?w2 = run_id (fst (prepare_run C E w kwargs))"
    "uuid_calls ?w2 = uuid_calls (fst (prepare_run C E w kwargs))"
    "workflow_id ?w2 = workflow_id (fst (prepare_run C E w kwargs))"
    "session_id ?w2 = session_id (fst (prepare_run C E w kwargs))"
    using r
    by (simp_all add: call_once_def case_prod_beta run_def run_workflow_ids
        split: result.splits ret.splits)
  show "\<exists>k. run_id ?w2 = Some (uuid4 E k) \<and> uuid_calls w \<le> k \<and> uuid_calls ?w2 = Suc k"
    unfolding f by (rule prepare_run_run_id)
  show "workflow_id ?w2 \<noteq> None" "session_id ?w2 \<noteq> None"
    unfolding f by (rule prepare_run_fields)+
  show "workflow_id w \<noteq> None \<Longrightarrow> workflow_id ?w2 = workflow_id w"
    unfolding f by (rule prepare_run_keeps)
  show "session_id w \<noteq> None \<Longrightarrow> session_id ?w2 = session_id w"
    unfolding f by (rule prepare_run_keeps)
qed

lemma begin_run_exact:
  "workflow_id (begin_run E w kwargs) =
     (case workflow_id w of None \<Rightarrow> Some (uuid4 E (uuid_calls w)) | Some x \<Rightarrow> Some x)"
  "session_id (begin_run E w kwargs) =
     (case session_id w of
        None \<Rightarrow> Some (uuid4 E (uuid_calls w + (if workflow_id w = None then 1 else 0)))
      | Some x \<Rightarrow> Some x)"
  "run_id (begin_run E w kwargs) =
     Some (uuid4 E (uuid_calls w + (if workflow_id w = None then 1 else 0)
                     + (if session_id w = None then 1 else 0)))"
  "uuid_calls (begin_run E w kwargs) =
     Suc (uuid_calls w + (if workflow_id w = None then 1 else 0)
           + (if session_id w = None then 1 else 0))"
  by (auto simp: begin_run_def initialize_memory_def set_session_id_def set_workflow_id_def
      set_debug_def set_storage_mode_def new_uuid_def log_add_def Let_def
      split: option.splits)

lemma call_once_begin:
  assumes r: "routine C = Some f"
  shows "run_id (call_once C E w kwargs drain) = run_id (begin_run E w kwargs)"
    and "uuid_calls (call_once C E w kwargs drain) = uuid_calls (begin_run E w kwargs)"
    and "workflow_id (call_once C E w kwargs drain) = workflow_id (begin_run E w kwargs)"
    and "session_id (call_once C E w kwargs drain) = session_id (begin_run E w kwargs)"
  using r
  by (simp_all add: call_once_def case_prod_beta run_def run_workflow_ids prepare_run_def
      read_from_storage_keeps begin_run_fields del: not_None_eq
      split: result.splits ret.splits)

lemma invoke_all_cons:
  "invoke_all C E w ((kwargs, drain) # calls) =
     (fst (invoke_all C E (call_once C E w kwargs drain) calls),
      (run_id (call_once C E w kwargs drain), workflow_id (call_once C E w kwargs drain),
       session_id (call_once C E w kwargs drain))
        # snd (invoke_all C E (call_once C E w kwargs drain) calls))"
  by (simp add: case_prod_beta Let_def)

lemma invoke_all_ids:
  assumes inj: "inj (uuid4 E)" and r: "routine C = Some f"
  shows "uuid_calls w \<le> uuid_calls (fst (invoke_all C E w calls))
    \<and> (\<forall>t \<in> set (snd (invoke_all C E w calls)).
          (\<exists>k. fst t = Some (uuid4 E k) \<and> uuid_calls w \<le> k
               \<and> k < uuid_calls (fst (invoke_all C E w calls)))
          \<and> snd t = (workflow_id (fst (invoke_all C E w calls)),
                      session_id (fst (invoke_all C E w calls))))
    \<and> distinct (map fst (snd (invoke_all C E w calls)))
    \<and> length (snd (invoke_all C E w calls)) = length calls
    \<and> (calls \<noteq> [] \<longrightarrow> workflow_id (fst (invoke_all C E w calls)) \<noteq> None
                     \<and> session_id (fst (invoke_all C E w calls)) \<noteq> None)
    \<and> (workflow_id w \<noteq> None \<longrightarrow> workflow_id (fst (invoke_all C E w calls)) = workflow_id w)
    \<and> (session_id w \<noteq> None \<longrightarrow> session_id (fst (invoke_all C E w calls)) = session_id w)"
proof (induction calls arbitrary: w)
  case Nil
  show ?case by simp
next
  case (Cons c calls)
  obtain kwargs drain where c: "c = (kwargs, drain)" by (cases c)
  define w2 where "w2 = call_once C E w kwargs drain"
  let ?rest = "invoke_all C E w2 calls"
  have unfold: "invoke_all C E w (c # calls) =
      (fst ?rest, (run_id w2, workflow_id w2, session_id w2) # snd ?rest)"
    unfolding c invoke_all_cons w2_def by simp
  from call_once_ids [OF r, where E = E and w = w and kwargs = kwargs and drain = drain] obtain k where
    k: "run_id w2 = Some (uuid4 E k)" "uuid_calls w \<le> k" "uuid_calls w2 = Suc k"
    and set2: "workflow_id w2 \<noteq> None" "session_id w2 \<noteq> None"
    and keep2: "workflow_id w \<noteq> None \<Longrightarrow> workflow_id w2 = workflow_id w"
      "session_id w \<noteq> None \<Longrightarrow> session_id w2 = session_id w"
    unfolding w2_def by blast
  note IH = Cons.IH [of w2]
  from IH have mono: "uuid_calls w2 \<le> uuid_calls (fst ?rest)" by blast
  from IH have each: "\<And>t. t \<in> set (snd ?rest) \<Longrightarrow>
          (\<exists>j. fst t = Some (uuid4 E j) \<and> uuid_calls w2 \<le> j \<and> j < uuid_calls (fst ?rest))
          \<and> snd t = (workflow_id (fst ?rest), session_id (fst ?rest))" by blast
  from IH have dist: "distinct (map fst (snd ?rest))" by blast
  from IH have len: "length (snd ?rest) = length calls" by blast
  from IH set2 have same: "workflow_id (fst ?rest) = workflow_id w2"
    "session_id (fst ?rest) = session_id w2" by blast+
  have fresh: "run_id w2 \<notin> set (map fst (snd ?rest))"
  proof
    assume "run_id w2 \<in> set (map fst (snd ?rest))"
    then obtain t where t: "t \<in> set (snd ?rest)" "fst t = run_id w2" by auto
    from each [OF t(1)] obtain j where j: "fst t = Some (uuid4 E j)" "uuid_calls w2 \<le> j" by blast
    from j(1) t(2) k(1) have "uuid4 E j = uuid4 E k" by simp
    with inj have "j = k" by (simp add: inj_eq)
    with j(2) k(3) show False by simp
  qed
  have first: "\<exists>j. run_id w2 = Some (uuid4 E j) \<and> uuid_calls w \<le> j \<and> j < uuid_calls (fst ?rest)"
    using k mono by (intro exI [of _ k]) simp
  have later: "\<exists>j. fst t = Some (uuid4 E j) \<and> uuid_calls w \<le> j \<and> j < uuid_calls (fst ?rest)"
    if "t \<in> set (snd ?rest)" for t
  proof -
    from each [OF that] obtain j where
      "fst t = Some (uuid4 E j)" "uuid_calls w2 \<le> j" "j < uuid_calls (fst ?rest)" by blast
    with k show ?thesis by (intro exI [of _ j]) simp
  qed
  show ?case
    unfolding unfold
    using k mono dist len same set2 keep2 fresh first later each
    by (auto simp del: set_map)
qed


lemma load_session_session_id [simp]:
  "session_id (fst (load_session E w force)) = session_id w"
  by (simp add: load_session_def case_prod_beta Let_def split: result.splits)

lemma new_session_session_id:
  "session_id (fst (new_session E w)) = Some (uuid4 E (uuid_calls w))"
  by (simp add: new_session_def new_uuid_def case_prod_beta Let_def split: result.splits)

text \<open>
  C6 (as amended). Over any series of calls of the entry point on one instance of a
  subclass that overrides \<open>run\<close>, with \<open>uuid4\<close> never returning a token twice: every call leaves a run
  id, and the run ids of the calls are pairwise distinct; the workflow id and the session
  id are the same after every call, they are set once a call has been made, and they are
  the ones the instance had at the start when it had any. The session merge keeps a
  workflow id, session id and user id that are set. \<open>new_session\<close> is what replaces the
  session id, by a new token.
\<close>

theorem run_ids_distinct_ids_stable:
  "inj (uuid4 E) \<Longrightarrow> routine C = Some f \<Longrightarrow> invoke_all C E w calls = (w', ids) \<Longrightarrow>
     length ids = length calls
   \<and> distinct (map fst ids)
   \<and> (\<forall>t \<in> set ids. fst t \<noteq> None \<and> snd t = (workflow_id w', session_id w'))
   \<and> (calls \<noteq> [] \<longrightarrow> workflow_id w' \<noteq> None \<and> session_id w' \<noteq> None)
   \<and> (workflow_id w \<noteq> None \<longrightarrow> workflow_id w' = workflow_id w)
   \<and> (session_id w \<noteq> None \<longrightarrow> session_id w' = session_id w)
   \<and> (workflow_id w \<noteq> None \<longrightarrow>
        workflow_id (fst (load_workflow_session E w session)) = workflow_id w)
   \<and> (session_id w \<noteq> None \<longrightarrow>
        session_id (fst (load_workflow_session E w session)) = session_id w)
   \<and> (user_id w \<noteq> None \<longrightarrow>
        user_id (fst (load_workflow_session E w session)) = user_id w)
   \<and> session_id (fst (new_session E w)) = Some (uuid4 E (uuid_calls w))"
proof -
  assume inj: "inj (uuid4 E)" and r: "routine C = Some f"
    and i: "invoke_all C E w calls = (w', ids)"
  from i have w': "w' = fst (invoke_all C E w calls)" and ids: "ids = snd (invoke_all C E w calls)"
    by simp_all
  note all = invoke_all_ids [OF inj r, of w calls, folded w' ids]
  from all have "\<And>t. t \<in> set ids \<Longrightarrow> fst t \<noteq> None \<and> snd t = (workflow_id w', session_id w')"
    by fastforce
  with all show ?thesis
    by (simp add: load_workflow_session_keeps new_session_session_id del: not_None_eq)
qed

theorem run_ids_distinct_ids_stable_witness:
  "inj (uuid4 table_env)
   \<and> routine abc_class = Some abc_routine
   \<and> snd (invoke_all abc_class table_env demo_instance [([], True), ([], False)]) =
       [(Some ''uii'', Some ''u'', Some ''ui''), (Some ''uiii'', Some ''u'', Some ''ui'')]
   \<and> distinct (map fst (snd (invoke_all abc_class table_env demo_instance [([], True), ([], False)])))"
proof -
  let ?calls = "[([], True), ([], False)] :: (dict \<times> bool) list"
  have inj: "inj (uuid4 table_env)" by (simp add: inj_def table_env_def)
  have r: "routine abc_class = Some abc_routine" by (simp add: abc_class_def demo_class_def)
  have i: "invoke_all abc_class table_env demo_instance ?calls =
      (fst (invoke_all abc_class table_env demo_instance ?calls),
       snd (invoke_all abc_class table_env demo_instance ?calls))" by simp
  have d: "workflow_id demo_instance = None" "session_id demo_instance = None"
    "uuid_calls demo_instance = 0"
    by (simp_all add: demo_instance_def Workflow_init_def post_init_def demo_args_def)
  have u: "uuid4 table_env = (\<lambda>n. CHR ''u'' # replicate n CHR ''i'')"
    by (simp add: table_env_def)
  have e: "snd (invoke_all abc_class table_env demo_instance ?calls) =
       [(Some ''uii'', Some ''u'', Some ''ui''), (Some ''uiii'', Some ''u'', Some ''ui'')]"
    by (simp add: invoke_all_cons call_once_begin [OF r] begin_run_exact d u)
  show ?thesis
    using run_ids_distinct_ids_stable [OF inj r i] inj r e by simp
qed


text \<open>The claim as first stated covers every instance. The entry point of a subclass
  that does not override \<open>run\<close> is \<open>Workflow.run\<close>, which generates nothing: after each
  of two calls the run id is still unset, so the two calls do not have distinct run ids.\<close>

theorem run_ids_without_override_counterexample:
  "map fst (snd (invoke_all (demo_class None) table_env demo_instance [([], False), ([], False)]))
     = [None, None]
   \<and> \<not> distinct (map fst (snd (invoke_all (demo_class None) table_env demo_instance
                                   [([], False), ([], False)])))"
  by (simp add: call_once_def run_def Workflow_run_def log_add_def demo_class_def
      demo_instance_def Workflow_init_def post_init_def)

section \<open>The agents' session ids\<close>

text \<open>\<open>update_agent_session_ids\<close> does nothing unless the declared type of a field
  is itself an \<open>Agent\<close> instance.\<close>

lemma update_agents_declared_types:
  "\<forall>field \<in> set fs. \<forall>a. snd field \<noteq> AgentObj a \<Longrightarrow> update_agents fs w = (w, Return ())"
  by (induction fs w rule: update_agents.induct) auto

text \<open>
  C7. The claim is that at the time the subclass routine is invoked every agent held by
  the instance carries the workflow's session id. On \<open>Blog()\<close>, constructed without a
  session id and run once, the routine is invoked on an instance whose session id is the
  token generated for it, while the agent \<open>writer\<close> still has the session id \<open>None\<close>
  that \<open>__post_init__\<close> gave it.
\<close>

theorem agent_session_id_left_unset:
  "snd (prepare_run agent_class table_env agent_instance []) = Return ()
   \<and> session_id (fst (prepare_run agent_class table_env agent_instance [])) = Some ''ui''
   \<and> map_of (attrs (fst (prepare_run agent_class table_env agent_instance []))) ''writer''
       = Some (AgentObj \<lparr> agent_session_id = None \<rparr>)"
  by (simp add: agent_instance_def agent_class_def eval_defs)

end
